theory Spec2Isabelle
  imports Complex_Main "HOL-Library.Word"
begin

chapter \<open>GODcoin-js: transactions, verification errors and the GRAEL asset\<close>

text \<open>
  The development embeds \<^verbatim>\<open>src/tx.ts\<close> (the transaction envelope, the four V0
  variants, their binary form, and \<^verbatim>\<open>TxVerifyError\<close>). The modules that file
  imports (\<^verbatim>\<open>bytebuffer.ts\<close>, \<^verbatim>\<open>serializer.ts\<close>, \<^verbatim>\<open>crypto.ts\<close>,
  \<^verbatim>\<open>script.ts\<close>, \<^verbatim>\<open>asset.ts\<close>) are not among the sources; what is needed of
  them is modelled from the specification, each such definition saying so, or taken as
  a parameter.
\<close>

section \<open>Errors and sequencing\<close>

text \<open>
  Every \<^verbatim>\<open>throw\<close> of the source is a value: a function that can throw returns
  \<open>error + 'a\<close>, with \<open>Inl\<close> the exception.
\<close>

datatype error =
    RangeError
  | UnknownTxVersion "16 word"
  | UnknownTxType "8 word"
  | TimestampMustBeUnsigned
  | InvalidTxErrorKind
  | InvalidScriptEvalErrorKind
  | InvalidErrorTypeForScriptEvalError
  | TypeError
  | AssetWireError

definition and_then :: "error + 'a \<Rightarrow> ('a \<Rightarrow> error + 'b) \<Rightarrow> error + 'b" where
  "and_then m f = (case m of Inl e \<Rightarrow> Inl e | Inr x \<Rightarrow> f x)"

section \<open>The byte buffer\<close>

type_synonym byte = "8 word"

text \<open>
  Modelled from the spec: \<^verbatim>\<open>ByteBuffer\<close> (bytebuffer.ts) is missing. The spec calls it a
  growable byte sink and read cursor with fixed-width integers in a single fixed byte
  order. A buffer being written is the list of the bytes written so far (a write appends,
  whatever the allocated capacity); a buffer being read is the list of the bytes from the
  cursor on (a read returns the value and the buffer behind it, and a read past the end
  throws). Integers are big-endian.
\<close>

type_synonym ByteBuffer = "byte list"

fun nat_to_be :: "nat \<Rightarrow> nat \<Rightarrow> byte list" where
  "nat_to_be 0 n = []"
| "nat_to_be (Suc k) n = nat_to_be k (n div 256) @ [of_nat (n mod 256)]"

definition be_to_nat :: "byte list \<Rightarrow> nat" where
  "be_to_nat bs = foldl (\<lambda>a b. a * 256 + unat b) 0 bs"

text \<open>
  \<^verbatim>\<open>Long\<close> of long.js: 64 bits and the flag that says whether they are read as
  unsigned.
\<close>

record Long =
  bits :: "64 word"
  unsigned :: bool

definition ByteBuffer_alloc :: "nat \<Rightarrow> ByteBuffer" where
  "ByteBuffer_alloc capacity = []"

definition sharedView :: "ByteBuffer \<Rightarrow> byte list" where
  "sharedView buf = buf"

definition writeBytes :: "ByteBuffer \<Rightarrow> byte list \<Rightarrow> ByteBuffer" where
  "writeBytes buf bs = buf @ bs"

definition writeUint8 :: "ByteBuffer \<Rightarrow> byte \<Rightarrow> ByteBuffer" where
  "writeUint8 buf v = buf @ [v]"

definition writeUint16 :: "ByteBuffer \<Rightarrow> 16 word \<Rightarrow> ByteBuffer" where
  "writeUint16 buf v = buf @ nat_to_be 2 (unat v)"

definition writeUint32 :: "ByteBuffer \<Rightarrow> 32 word \<Rightarrow> ByteBuffer" where
  "writeUint32 buf v = buf @ nat_to_be 4 (unat v)"

definition writeUint64 :: "ByteBuffer \<Rightarrow> Long \<Rightarrow> ByteBuffer" where
  "writeUint64 buf v = buf @ nat_to_be 8 (unat (bits v))"

definition readBytes :: "nat \<Rightarrow> ByteBuffer \<Rightarrow> error + (byte list \<times> ByteBuffer)" where
  "readBytes n buf = (if length buf < n then Inl RangeError else Inr (take n buf, drop n buf))"

definition readUint8 :: "ByteBuffer \<Rightarrow> error + (byte \<times> ByteBuffer)" where
  "readUint8 buf = (case buf of [] \<Rightarrow> Inl RangeError | b # rest \<Rightarrow> Inr (b, rest))"

definition readUint16 :: "ByteBuffer \<Rightarrow> error + (16 word \<times> ByteBuffer)" where
  "readUint16 buf = and_then (readBytes 2 buf) (\<lambda>(bs, rest). Inr (of_nat (be_to_nat bs), rest))"

definition readUint32 :: "ByteBuffer \<Rightarrow> error + (32 word \<times> ByteBuffer)" where
  "readUint32 buf = and_then (readBytes 4 buf) (\<lambda>(bs, rest). Inr (of_nat (be_to_nat bs), rest))"

definition readUint64 :: "ByteBuffer \<Rightarrow> error + (Long \<times> ByteBuffer)" where
  "readUint64 buf = and_then (readBytes 8 buf)
     (\<lambda>(bs, rest). Inr (\<lparr>bits = of_nat (be_to_nat bs), unsigned = True\<rparr>, rest))"

section \<open>Keys, digests, scripts and assets\<close>

text \<open>
  Modelled from the spec: \<^verbatim>\<open>PublicKey\<close>, \<^verbatim>\<open>ScriptHash\<close>, \<^verbatim>\<open>SigPair\<close> and
  \<^verbatim>\<open>KeyPair\<close> (crypto.ts) and \<^verbatim>\<open>Script\<close> (script.ts) are missing. The spec gives a
  script-hash as a fixed-length raw digest, a signature pair as public-key bytes and
  signature bytes of fixed lengths, a script as an opaque blob, and the signer as
  \<^verbatim>\<open>sign(bytes) -> (publicKey, signature)\<close>. The lengths are those of the schemes the
  package depends on (SHA-256 digests, Ed25519 keys and signatures); no proof below
  depends on their values.
\<close>

type_synonym PublicKey = "byte list"
type_synonym ScriptHash = "byte list"
type_synonym Script = "byte list"

record SigPair =
  publicKey :: PublicKey
  signature :: "byte list"

record KeyPair =
  sign :: "byte list \<Rightarrow> SigPair"

definition DIGEST_BYTES :: nat where
  "DIGEST_BYTES = 32"

definition PUBLIC_KEY_BYTES :: nat where
  "PUBLIC_KEY_BYTES = 32"

definition SIGNATURE_BYTES :: nat where
  "SIGNATURE_BYTES = 64"

text \<open>
  Modelled from the spec: \<^verbatim>\<open>Asset\<close> (asset.ts) is missing. An asset is its
  \<open>amount\<close>, a signed arbitrary-precision integer of minor units (the amount times
  \<open>10 ^ 5\<close>); the symbol is implicit.
\<close>

datatype Asset = Asset (amount: int)

text \<open>
  The spec gives the wire form of an asset only as an arbitrary-precision signed-integer
  encoding of the minor units. The two functions of serializer.ts that implement it are
  parameters of everything that writes or reads a transaction.
\<close>

record AssetWire =
  asset_enc :: "Asset \<Rightarrow> byte list"
  asset_dec :: "ByteBuffer \<Rightarrow> error + (Asset \<times> ByteBuffer)"

text \<open>
  Modelled from the spec: \<^verbatim>\<open>TypeSerializer\<close> and \<^verbatim>\<open>TypeDeserializer\<close>
  (serializer.ts) are missing. A digest and a public key are their raw bytes; a signature
  pair is the public key followed by the signature; a blob, a script and a text are a
  length prefix (four bytes here) followed by the raw bytes.
\<close>

definition TypeSerializer_digest :: "ByteBuffer \<Rightarrow> byte list \<Rightarrow> ByteBuffer" where
  "TypeSerializer_digest buf d = writeBytes buf d"

definition TypeSerializer_publicKey :: "ByteBuffer \<Rightarrow> PublicKey \<Rightarrow> ByteBuffer" where
  "TypeSerializer_publicKey buf k = writeBytes buf k"

definition TypeSerializer_sigPair :: "ByteBuffer \<Rightarrow> SigPair \<Rightarrow> ByteBuffer" where
  "TypeSerializer_sigPair buf s = writeBytes (TypeSerializer_publicKey buf (publicKey s)) (signature s)"

definition TypeSerializer_buffer :: "ByteBuffer \<Rightarrow> byte list \<Rightarrow> ByteBuffer" where
  "TypeSerializer_buffer buf bs = writeBytes (writeUint32 buf (of_nat (length bs))) bs"

definition TypeSerializer_string :: "ByteBuffer \<Rightarrow> string \<Rightarrow> ByteBuffer" where
  "TypeSerializer_string buf s = TypeSerializer_buffer buf (map (\<lambda>c. of_nat (of_char c)) s)"

definition TypeSerializer_script :: "ByteBuffer \<Rightarrow> Script \<Rightarrow> ByteBuffer" where
  "TypeSerializer_script buf s = TypeSerializer_buffer buf s"

definition TypeSerializer_asset :: "AssetWire \<Rightarrow> ByteBuffer \<Rightarrow> Asset \<Rightarrow> ByteBuffer" where
  "TypeSerializer_asset W buf a = writeBytes buf (asset_enc W a)"

definition TypeDeserializer_digest :: "ByteBuffer \<Rightarrow> error + (byte list \<times> ByteBuffer)" where
  "TypeDeserializer_digest buf = readBytes DIGEST_BYTES buf"

definition TypeDeserializer_publicKey :: "ByteBuffer \<Rightarrow> error + (PublicKey \<times> ByteBuffer)" where
  "TypeDeserializer_publicKey buf = readBytes PUBLIC_KEY_BYTES buf"

definition TypeDeserializer_sigPair :: "ByteBuffer \<Rightarrow> error + (SigPair \<times> ByteBuffer)" where
  "TypeDeserializer_sigPair buf =
     and_then (TypeDeserializer_publicKey buf) (\<lambda>(k, buf).
     and_then (readBytes SIGNATURE_BYTES buf) (\<lambda>(s, buf).
     Inr (\<lparr>publicKey = k, signature = s\<rparr>, buf)))"

definition TypeDeserializer_buffer :: "ByteBuffer \<Rightarrow> error + (byte list \<times> ByteBuffer)" where
  "TypeDeserializer_buffer buf =
     and_then (readUint32 buf) (\<lambda>(len, buf). readBytes (unat len) buf)"

definition TypeDeserializer_string :: "ByteBuffer \<Rightarrow> error + (string \<times> ByteBuffer)" where
  "TypeDeserializer_string buf =
     and_then (TypeDeserializer_buffer buf) (\<lambda>(bs, buf). Inr (map (\<lambda>b. char_of (unat b)) bs, buf))"

definition TypeDeserializer_script :: "ByteBuffer \<Rightarrow> error + (Script \<times> ByteBuffer)" where
  "TypeDeserializer_script buf = TypeDeserializer_buffer buf"

definition TypeDeserializer_asset :: "AssetWire \<Rightarrow> ByteBuffer \<Rightarrow> error + (Asset \<times> ByteBuffer)" where
  "TypeDeserializer_asset W buf = asset_dec W buf"

section \<open>Transactions (tx.ts)\<close>

definition MAX_MEMO_BYTE_SIZE :: nat where
  "MAX_MEMO_BYTE_SIZE = 1024"

definition MAX_TX_SIGNATURES :: nat where
  "MAX_TX_SIGNATURES = 8"

datatype TxType = OWNER | MINT | REWARD | TRANSFER

text \<open>The numeric value of an enum member, as \<^verbatim>\<open>writeUint8(this.type)\<close> writes it.\<close>

fun TxType_value :: "TxType \<Rightarrow> byte" where
  "TxType_value OWNER = 0x00"
| "TxType_value MINT = 0x01"
| "TxType_value REWARD = 0x02"
| "TxType_value TRANSFER = 0x03"

text \<open>
  \<^verbatim>\<open>type in TxType\<close> on a byte read from the buffer: the numeric keys of the
  compiled enum object are exactly its members' values.
\<close>

definition in_TxType :: "byte \<Rightarrow> TxType option" where
  "in_TxType b =
     (if b = 0x00 then Some OWNER else if b = 0x01 then Some MINT
      else if b = 0x02 then Some REWARD else if b = 0x03 then Some TRANSFER else None)"

record TxData =
  timestamp :: Long
  fee :: Asset
  signaturePairs :: "SigPair list"

record OwnerTxData =
  minter :: PublicKey
  wallet :: ScriptHash
  owner_script :: Script

record MintTxData =
  mint_to :: ScriptHash
  mint_amount :: Asset
  attachment :: "byte list"
  attachmentName :: string
  mint_script :: Script

record RewardTxData =
  reward_to :: ScriptHash
  rewards :: Asset

record TransferTxData =
  transfer_from :: ScriptHash
  transfer_to :: ScriptHash
  transfer_script :: Script
  transfer_amount :: Asset
  memo :: "byte list"

text \<open>
  An instance of one of the four subclasses of \<^verbatim>\<open>TxV0\<close>: the fields of the base
  class and those of the subclass. The \<^verbatim>\<open>type\<close> field is fixed by the subclass
  (\<^verbatim>\<open>super(TxType.OWNER, base)\<close>), so it is a function of the constructor.
\<close>

datatype TxVariantV0 =
    OwnerTxV0 TxData OwnerTxData
  | MintTxV0 TxData MintTxData
  | RewardTxV0 TxData RewardTxData
  | TransferTxV0 TxData TransferTxData

type_synonym TxVariantVer = TxVariantV0

fun tx_type :: "TxVariantV0 \<Rightarrow> TxType" where
  "tx_type (OwnerTxV0 b d) = OWNER"
| "tx_type (MintTxV0 b d) = MINT"
| "tx_type (RewardTxV0 b d) = REWARD"
| "tx_type (TransferTxV0 b d) = TRANSFER"

fun tx_base :: "TxVariantV0 \<Rightarrow> TxData" where
  "tx_base (OwnerTxV0 b d) = b"
| "tx_base (MintTxV0 b d) = b"
| "tx_base (RewardTxV0 b d) = b"
| "tx_base (TransferTxV0 b d) = b"

fun set_signaturePairs :: "SigPair list \<Rightarrow> TxVariantV0 \<Rightarrow> TxVariantV0" where
  "set_signaturePairs s (OwnerTxV0 b d) = OwnerTxV0 (b\<lparr>signaturePairs := s\<rparr>) d"
| "set_signaturePairs s (MintTxV0 b d) = MintTxV0 (b\<lparr>signaturePairs := s\<rparr>) d"
| "set_signaturePairs s (RewardTxV0 b d) = RewardTxV0 (b\<lparr>signaturePairs := s\<rparr>) d"
| "set_signaturePairs s (TransferTxV0 b d) = TransferTxV0 (b\<lparr>signaturePairs := s\<rparr>) d"

text \<open>The constructor of the abstract class: the one check it makes.\<close>

definition new_TxV0 :: "TxType \<Rightarrow> TxData \<Rightarrow> error + TxData" where
  "new_TxV0 type data =
     (if \<not> unsigned (timestamp data) then Inl TimestampMustBeUnsigned else Inr data)"

definition new_OwnerTxV0 :: "TxData \<Rightarrow> OwnerTxData \<Rightarrow> error + TxVariantV0" where
  "new_OwnerTxV0 base data = and_then (new_TxV0 OWNER base) (\<lambda>b. Inr (OwnerTxV0 b data))"

definition new_MintTxV0 :: "TxData \<Rightarrow> MintTxData \<Rightarrow> error + TxVariantV0" where
  "new_MintTxV0 base data = and_then (new_TxV0 MINT base) (\<lambda>b. Inr (MintTxV0 b data))"

definition new_RewardTxV0 :: "TxData \<Rightarrow> RewardTxData \<Rightarrow> error + TxVariantV0" where
  "new_RewardTxV0 base data = and_then (new_TxV0 REWARD base) (\<lambda>b. Inr (RewardTxV0 b data))"

definition new_TransferTxV0 :: "TxData \<Rightarrow> TransferTxData \<Rightarrow> error + TxVariantV0" where
  "new_TransferTxV0 base data = and_then (new_TxV0 TRANSFER base) (\<lambda>b. Inr (TransferTxV0 b data))"

subsection \<open>Serialization\<close>

definition serializeHeader :: "AssetWire \<Rightarrow> ByteBuffer \<Rightarrow> TxVariantV0 \<Rightarrow> ByteBuffer" where
  "serializeHeader W buf t =
     (let buf = writeUint8 buf (TxType_value (tx_type t));
          buf = writeUint64 buf (timestamp (tx_base t))
      in TypeSerializer_asset W buf (fee (tx_base t)))"

fun serializeData :: "AssetWire \<Rightarrow> ByteBuffer \<Rightarrow> TxVariantV0 \<Rightarrow> ByteBuffer" where
  "serializeData W buf (OwnerTxV0 b d) =
     (let buf = TypeSerializer_publicKey buf (minter d);
          buf = TypeSerializer_digest buf (wallet d)
      in TypeSerializer_script buf (owner_script d))"
| "serializeData W buf (MintTxV0 b d) =
     (let buf = TypeSerializer_digest buf (mint_to d);
          buf = TypeSerializer_asset W buf (mint_amount d);
          buf = TypeSerializer_buffer buf (attachment d);
          buf = TypeSerializer_string buf (attachmentName d)
      in TypeSerializer_script buf (mint_script d))"
| "serializeData W buf (RewardTxV0 b d) =
     (let buf = TypeSerializer_digest buf (reward_to d)
      in TypeSerializer_asset W buf (rewards d))"
| "serializeData W buf (TransferTxV0 b d) =
     (let buf = TypeSerializer_digest buf (transfer_from d);
          buf = TypeSerializer_digest buf (transfer_to d);
          buf = TypeSerializer_script buf (transfer_script d);
          buf = TypeSerializer_asset W buf (transfer_amount d)
      in TypeSerializer_buffer buf (memo d))"

text \<open>
  \<^verbatim>\<open>TxV0.serialize(buf, includeSigs = true)\<close>: the default applies when the argument
  is \<^verbatim>\<open>undefined\<close>, here \<open>None\<close>. The loop over the signature pairs is a fold.
\<close>

definition TxV0_serialize :: "AssetWire \<Rightarrow> ByteBuffer \<Rightarrow> bool option \<Rightarrow> TxVariantV0 \<Rightarrow> ByteBuffer" where
  "TxV0_serialize W buf includeSigs t =
     (let buf = serializeHeader W buf t;
          buf = serializeData W buf t
      in if (case includeSigs of None \<Rightarrow> True | Some b \<Rightarrow> b)
         then fold (\<lambda>sig buf. TypeSerializer_sigPair buf sig) (signaturePairs (tx_base t))
                (writeUint8 buf (of_nat (length (signaturePairs (tx_base t)))))
         else buf)"

datatype TxVariant = TxVariant (tx: TxVariantVer)

definition TxVariant_serialize ::
  "AssetWire \<Rightarrow> ByteBuffer option \<Rightarrow> bool option \<Rightarrow> TxVariant \<Rightarrow> ByteBuffer" where
  "TxVariant_serialize W buf includeSigs v =
     (let buf = (case buf of None \<Rightarrow> ByteBuffer_alloc 8192 | Some b \<Rightarrow> b);
          buf = writeUint16 buf 0x00
      in TxV0_serialize W buf includeSigs (tx v))"

text \<open>
  \<^verbatim>\<open>sign(keyPair, append = true)\<close> returns the pair and, as \<^verbatim>\<open>push\<close> mutates the
  list of the wrapped transaction, the envelope after the call (\<open>append_sig\<close> is the
  source's \<^verbatim>\<open>append\<close>).
\<close>

definition TxVariant_sign :: "AssetWire \<Rightarrow> KeyPair \<Rightarrow> bool \<Rightarrow> TxVariant \<Rightarrow> SigPair \<times> TxVariant" where
  "TxVariant_sign W keyPair append_sig v =
     (let buf = TxVariant_serialize W None (Some False) v;
          sig = sign keyPair (sharedView buf)
      in (sig, if append_sig
               then TxVariant (set_signaturePairs (signaturePairs (tx_base (tx v)) @ [sig]) (tx v))
               else v))"

subsection \<open>Deserialization\<close>

definition deserializeHeader :: "AssetWire \<Rightarrow> ByteBuffer \<Rightarrow> error + ((TxType \<times> TxData) \<times> ByteBuffer)" where
  "deserializeHeader W buf =
     and_then (readUint8 buf) (\<lambda>(type, buf).
     case in_TxType type of
       None \<Rightarrow> Inl (UnknownTxType type)
     | Some ty \<Rightarrow>
         and_then (readUint64 buf) (\<lambda>(timestamp, buf).
         and_then (TypeDeserializer_asset W buf) (\<lambda>(fee, buf).
         Inr ((ty, \<lparr>timestamp = timestamp, fee = fee, signaturePairs = []\<rparr>), buf))))"

text \<open>The loop of \<^verbatim>\<open>deserializeSigs\<close>, by the number of pairs still to read.\<close>

fun read_sigs :: "nat \<Rightarrow> ByteBuffer \<Rightarrow> error + (SigPair list \<times> ByteBuffer)" where
  "read_sigs 0 buf = Inr ([], buf)"
| "read_sigs (Suc n) buf =
     and_then (TypeDeserializer_sigPair buf) (\<lambda>(s, buf).
     and_then (read_sigs n buf) (\<lambda>(ss, buf). Inr (s # ss, buf)))"

definition deserializeSigs :: "ByteBuffer \<Rightarrow> error + (SigPair list \<times> ByteBuffer)" where
  "deserializeSigs buf = and_then (readUint8 buf) (\<lambda>(sigLen, buf). read_sigs (unat sigLen) buf)"

definition OwnerTxV0_deserializeData :: "ByteBuffer \<Rightarrow> error + (OwnerTxData \<times> ByteBuffer)" where
  "OwnerTxV0_deserializeData buf =
     and_then (TypeDeserializer_publicKey buf) (\<lambda>(minter, buf).
     and_then (TypeDeserializer_digest buf) (\<lambda>(wallet, buf).
     and_then (TypeDeserializer_script buf) (\<lambda>(script, buf).
     Inr (\<lparr>minter = minter, wallet = wallet, owner_script = script\<rparr>, buf))))"

definition MintTxV0_deserializeData :: "AssetWire \<Rightarrow> ByteBuffer \<Rightarrow> error + (MintTxData \<times> ByteBuffer)" where
  "MintTxV0_deserializeData W buf =
     and_then (TypeDeserializer_digest buf) (\<lambda>(to, buf).
     and_then (TypeDeserializer_asset W buf) (\<lambda>(amount, buf).
     and_then (TypeDeserializer_buffer buf) (\<lambda>(attachment, buf).
     and_then (TypeDeserializer_string buf) (\<lambda>(attachmentName, buf).
     and_then (TypeDeserializer_script buf) (\<lambda>(script, buf).
     Inr (\<lparr>mint_to = to, mint_amount = amount, attachment = attachment,
           attachmentName = attachmentName, mint_script = script\<rparr>, buf))))))"

definition RewardTxV0_deserializeData :: "AssetWire \<Rightarrow> ByteBuffer \<Rightarrow> error + (RewardTxData \<times> ByteBuffer)" where
  "RewardTxV0_deserializeData W buf =
     and_then (TypeDeserializer_digest buf) (\<lambda>(to, buf).
     and_then (TypeDeserializer_asset W buf) (\<lambda>(rewards, buf).
     Inr (\<lparr>reward_to = to, rewards = rewards\<rparr>, buf)))"

definition TransferTxV0_deserializeData :: "AssetWire \<Rightarrow> ByteBuffer \<Rightarrow> error + (TransferTxData \<times> ByteBuffer)" where
  "TransferTxV0_deserializeData W buf =
     and_then (TypeDeserializer_digest buf) (\<lambda>(from, buf).
     and_then (TypeDeserializer_digest buf) (\<lambda>(to, buf).
     and_then (TypeDeserializer_script buf) (\<lambda>(script, buf).
     and_then (TypeDeserializer_asset W buf) (\<lambda>(amount, buf).
     and_then (TypeDeserializer_buffer buf) (\<lambda>(memo, buf).
     Inr (\<lparr>transfer_from = from, transfer_to = to, transfer_script = script,
           transfer_amount = amount, memo = memo\<rparr>, buf))))))"

definition TxV0_deserialize :: "AssetWire \<Rightarrow> ByteBuffer \<Rightarrow> error + (TxVariantV0 \<times> ByteBuffer)" where
  "TxV0_deserialize W buf =
     and_then (deserializeHeader W buf) (\<lambda>((ty, header), buf).
     case ty of
       OWNER \<Rightarrow>
         and_then (OwnerTxV0_deserializeData buf) (\<lambda>(data, buf).
         and_then (deserializeSigs buf) (\<lambda>(sigs, buf).
         and_then (new_OwnerTxV0 (header\<lparr>signaturePairs := sigs\<rparr>) data) (\<lambda>t. Inr (t, buf))))
     | MINT \<Rightarrow>
         and_then (MintTxV0_deserializeData W buf) (\<lambda>(data, buf).
         and_then (deserializeSigs buf) (\<lambda>(sigs, buf).
         and_then (new_MintTxV0 (header\<lparr>signaturePairs := sigs\<rparr>) data) (\<lambda>t. Inr (t, buf))))
     | REWARD \<Rightarrow>
         and_then (RewardTxV0_deserializeData W buf) (\<lambda>(data, buf).
         and_then (deserializeSigs buf) (\<lambda>(sigs, buf).
         and_then (new_RewardTxV0 (header\<lparr>signaturePairs := sigs\<rparr>) data) (\<lambda>t. Inr (t, buf))))
     | TRANSFER \<Rightarrow>
         and_then (TransferTxV0_deserializeData W buf) (\<lambda>(data, buf).
         and_then (deserializeSigs buf) (\<lambda>(sigs, buf).
         and_then (new_TransferTxV0 (header\<lparr>signaturePairs := sigs\<rparr>) data) (\<lambda>t. Inr (t, buf)))))"

definition TxVariant_deserialize :: "AssetWire \<Rightarrow> ByteBuffer \<Rightarrow> error + (TxVariant \<times> ByteBuffer)" where
  "TxVariant_deserialize W buf =
     and_then (readUint16 buf) (\<lambda>(ver, buf).
     if ver = 0x00
     then and_then (TxV0_deserialize W buf) (\<lambda>(t, buf). Inr (TxVariant t, buf))
     else Inl (UnknownTxVersion ver))"

section \<open>Verification errors (tx.ts)\<close>

text \<open>
  Modelled from the spec: \<^verbatim>\<open>ScriptEvalError\<close> and \<^verbatim>\<open>ScriptEvalErrorKind\<close>
  (script.ts) are missing. The spec gives the payload as a four-byte unsigned offset and
  a one-byte nested kind. Which bytes are members of the nested enum, and the message a
  script error carries, are parameters.
\<close>

type_synonym ScriptEvalErrorKind = byte

record ScriptApi =
  in_ScriptEvalErrorKind :: "byte \<Rightarrow> bool"
  ScriptEvalError_message :: "ScriptEvalErrorKind \<Rightarrow> 32 word \<Rightarrow> string"

record ScriptEvalError =
  se_kind :: ScriptEvalErrorKind
  se_position :: "32 word"
  se_message :: string

definition new_ScriptEvalError :: "ScriptApi \<Rightarrow> ScriptEvalErrorKind \<Rightarrow> 32 word \<Rightarrow> ScriptEvalError" where
  "new_ScriptEvalError S k pos =
     \<lparr>se_kind = k, se_position = pos, se_message = ScriptEvalError_message S k pos\<rparr>"

text \<open>
  What a caller can pass for \<^verbatim>\<open>meta?: Error\<close>: nothing, a \<^verbatim>\<open>ScriptEvalError\<close>,
  or an error of another class.
\<close>

datatype JsError = ScriptEvalErr ScriptEvalError | OtherError string

datatype TxVerifyErrorKind =
    ScriptEval
  | ScriptHashMismatch
  | ScriptRetFalse
  | Arithmetic
  | InsufficientBalance
  | InvalidFeeAmount
  | TooManySignatures
  | TxTooLarge
  | TxProhibited
  | TxExpired
  | TxDupe

fun TxVerifyErrorKind_value :: "TxVerifyErrorKind \<Rightarrow> byte" where
  "TxVerifyErrorKind_value ScriptEval = 0x00"
| "TxVerifyErrorKind_value ScriptHashMismatch = 0x01"
| "TxVerifyErrorKind_value ScriptRetFalse = 0x02"
| "TxVerifyErrorKind_value Arithmetic = 0x03"
| "TxVerifyErrorKind_value InsufficientBalance = 0x04"
| "TxVerifyErrorKind_value InvalidFeeAmount = 0x05"
| "TxVerifyErrorKind_value TooManySignatures = 0x06"
| "TxVerifyErrorKind_value TxTooLarge = 0x07"
| "TxVerifyErrorKind_value TxProhibited = 0x08"
| "TxVerifyErrorKind_value TxExpired = 0x09"
| "TxVerifyErrorKind_value TxDupe = 0x0a"

text \<open>\<^verbatim>\<open>kind in TxVerifyErrorKind\<close> on a byte read from the buffer.\<close>

definition in_TxVerifyErrorKind :: "byte \<Rightarrow> TxVerifyErrorKind option" where
  "in_TxVerifyErrorKind b =
     (if b = 0x00 then Some ScriptEval else if b = 0x01 then Some ScriptHashMismatch
      else if b = 0x02 then Some ScriptRetFalse else if b = 0x03 then Some Arithmetic
      else if b = 0x04 then Some InsufficientBalance else if b = 0x05 then Some InvalidFeeAmount
      else if b = 0x06 then Some TooManySignatures else if b = 0x07 then Some TxTooLarge
      else if b = 0x08 then Some TxProhibited else if b = 0x09 then Some TxExpired
      else if b = 0x0a then Some TxDupe else None)"

text \<open>
  The instance: \<open>meta\<close> is the one field the constructor leaves unset for ten of the
  kinds, and the only value it ever stores there is a \<^verbatim>\<open>ScriptEvalError\<close>.
\<close>

record TxVerifyError =
  kind :: TxVerifyErrorKind
  meta :: "ScriptEvalError option"
  message :: string

fun new_TxVerifyError :: "TxVerifyErrorKind \<Rightarrow> JsError option \<Rightarrow> error + TxVerifyError" where
  "new_TxVerifyError ScriptEval m =
     (case m of
        Some (ScriptEvalErr se) \<Rightarrow>
          Inr \<lparr>kind = ScriptEval, meta = Some se, message = ''script eval: '' @ se_message se\<rparr>
      | _ \<Rightarrow> Inl InvalidErrorTypeForScriptEvalError)"
| "new_TxVerifyError ScriptHashMismatch m =
     Inr \<lparr>kind = ScriptHashMismatch, meta = None, message = ''script hash mismatch''\<rparr>"
| "new_TxVerifyError ScriptRetFalse m =
     Inr \<lparr>kind = ScriptRetFalse, meta = None, message = ''script returned false''\<rparr>"
| "new_TxVerifyError Arithmetic m =
     Inr \<lparr>kind = Arithmetic, meta = None, message = ''arithmetic error''\<rparr>"
| "new_TxVerifyError InsufficientBalance m =
     Inr \<lparr>kind = InsufficientBalance, meta = None, message = ''insufficient balance''\<rparr>"
| "new_TxVerifyError InvalidFeeAmount m =
     Inr \<lparr>kind = InvalidFeeAmount, meta = None, message = ''invalid fee amount''\<rparr>"
| "new_TxVerifyError TooManySignatures m =
     Inr \<lparr>kind = TooManySignatures, meta = None, message = ''too many signatures''\<rparr>"
| "new_TxVerifyError TxTooLarge m =
     Inr \<lparr>kind = TxTooLarge, meta = None, message = ''tx too large''\<rparr>"
| "new_TxVerifyError TxProhibited m =
     Inr \<lparr>kind = TxProhibited, meta = None, message = ''tx prohibited''\<rparr>"
| "new_TxVerifyError TxExpired m =
     Inr \<lparr>kind = TxExpired, meta = None, message = ''tx expired''\<rparr>"
| "new_TxVerifyError TxDupe m =
     Inr \<lparr>kind = TxDupe, meta = None, message = ''tx dupe''\<rparr>"

text \<open>The message each branch of the constructor's switch assigns to a kind without payload.\<close>

fun TxVerifyError_fixed_message :: "TxVerifyErrorKind \<Rightarrow> string" where
  "TxVerifyError_fixed_message ScriptEval = []"
| "TxVerifyError_fixed_message ScriptHashMismatch = ''script hash mismatch''"
| "TxVerifyError_fixed_message ScriptRetFalse = ''script returned false''"
| "TxVerifyError_fixed_message Arithmetic = ''arithmetic error''"
| "TxVerifyError_fixed_message InsufficientBalance = ''insufficient balance''"
| "TxVerifyError_fixed_message InvalidFeeAmount = ''invalid fee amount''"
| "TxVerifyError_fixed_message TooManySignatures = ''too many signatures''"
| "TxVerifyError_fixed_message TxTooLarge = ''tx too large''"
| "TxVerifyError_fixed_message TxProhibited = ''tx prohibited''"
| "TxVerifyError_fixed_message TxExpired = ''tx expired''"
| "TxVerifyError_fixed_message TxDupe = ''tx dupe''"

text \<open>
  \<^verbatim>\<open>serialize\<close> reads \<^verbatim>\<open>position\<close> and \<^verbatim>\<open>kind\<close> of \<^verbatim>\<open>this.meta\<close>: on an
  instance whose \<open>meta\<close> is unset that is a \<^verbatim>\<open>TypeError\<close>.
\<close>

definition TxVerifyError_serialize :: "ByteBuffer \<Rightarrow> TxVerifyError \<Rightarrow> error + ByteBuffer" where
  "TxVerifyError_serialize buf e =
     (let buf = writeUint8 buf (TxVerifyErrorKind_value (kind e))
      in if kind e = ScriptEval
         then (case meta e of
                 None \<Rightarrow> Inl TypeError
               | Some err \<Rightarrow> Inr (writeUint8 (writeUint32 buf (se_position err)) (se_kind err)))
         else Inr buf)"

definition TxVerifyError_deserialize :: "ScriptApi \<Rightarrow> ByteBuffer \<Rightarrow> error + (TxVerifyError \<times> ByteBuffer)" where
  "TxVerifyError_deserialize S buf =
     and_then (readUint8 buf) (\<lambda>(k, buf).
     case in_TxVerifyErrorKind k of
       None \<Rightarrow> Inl InvalidTxErrorKind
     | Some knd \<Rightarrow>
         and_then
           (if knd = ScriptEval
            then and_then (readUint32 buf) (\<lambda>(pos, buf).
                 and_then (readUint8 buf) (\<lambda>(evalErrKind, buf).
                 if \<not> in_ScriptEvalErrorKind S evalErrKind then Inl InvalidScriptEvalErrorKind
                 else Inr (Some (ScriptEvalErr (new_ScriptEvalError S evalErrKind pos)), buf)))
            else Inr (None, buf))
           (\<lambda>(m, buf). and_then (new_TxVerifyError knd m) (\<lambda>e. Inr (e, buf))))"

text \<open>
  A script error as script.ts builds it: its kind is a member of the nested enum and its
  message is the one its constructor derives.
\<close>

definition wf_ScriptEvalError :: "ScriptApi \<Rightarrow> ScriptEvalError \<Rightarrow> bool" where
  "wf_ScriptEvalError S se =
     (in_ScriptEvalErrorKind S (se_kind se) \<and> se = new_ScriptEvalError S (se_kind se) (se_position se))"

text \<open>A sample of the script interface, for evaluating the functions on concrete inputs.\<close>

definition sample_script_api :: ScriptApi where
  "sample_script_api =
     \<lparr>in_ScriptEvalErrorKind = (\<lambda>b. unat b < 6),
      ScriptEvalError_message = (\<lambda>k pos. ''script error'')\<rparr>"

section \<open>Well-formed values and the laws of the asset encoding\<close>

text \<open>
  The bytes a blob contributes to a buffer: its four-byte length and its content.
\<close>

definition buffer_bytes :: "byte list \<Rightarrow> byte list" where
  "buffer_bytes bs = TypeSerializer_buffer [] bs"

text \<open>
  What the types of crypto.ts and the length prefix impose on the fields of a
  transaction: digests, keys and signatures have their fixed lengths, and the length of a
  blob or text fits its four-byte prefix. A transaction built by a constructor has an
  unsigned timestamp.
\<close>

definition wf_digest :: "byte list \<Rightarrow> bool" where
  "wf_digest d = (length d = DIGEST_BYTES)"

definition wf_PublicKey :: "PublicKey \<Rightarrow> bool" where
  "wf_PublicKey k = (length k = PUBLIC_KEY_BYTES)"

definition wf_SigPair :: "SigPair \<Rightarrow> bool" where
  "wf_SigPair s = (wf_PublicKey (publicKey s) \<and> length (signature s) = SIGNATURE_BYTES)"

definition wf_blob :: "byte list \<Rightarrow> bool" where
  "wf_blob bs = (length bs < 2 ^ 32)"

definition wf_TxData :: "TxData \<Rightarrow> bool" where
  "wf_TxData b = (unsigned (timestamp b) \<and> list_all wf_SigPair (signaturePairs b))"

fun wf_tx :: "TxVariantV0 \<Rightarrow> bool" where
  "wf_tx (OwnerTxV0 b d) =
     (wf_TxData b \<and> wf_PublicKey (minter d) \<and> wf_digest (wallet d) \<and> wf_blob (owner_script d))"
| "wf_tx (MintTxV0 b d) =
     (wf_TxData b \<and> wf_digest (mint_to d) \<and> wf_blob (attachment d)
      \<and> length (attachmentName d) < 2 ^ 32 \<and> wf_blob (mint_script d))"
| "wf_tx (RewardTxV0 b d) = (wf_TxData b \<and> wf_digest (reward_to d))"
| "wf_tx (TransferTxV0 b d) =
     (wf_TxData b \<and> wf_digest (transfer_from d) \<and> wf_digest (transfer_to d)
      \<and> wf_blob (transfer_script d) \<and> wf_blob (memo d))"

text \<open>
  The two laws asked of the asset encoding: reading back what was written gives the asset
  and leaves the cursor behind it; and the decoder accepts no other bytes for an asset
  than those the encoder writes.
\<close>

definition asset_wire_roundtrip :: "AssetWire \<Rightarrow> bool" where
  "asset_wire_roundtrip W = (\<forall>a rest. asset_dec W (asset_enc W a @ rest) = Inr (a, rest))"


subsection \<open>One asset encoding\<close>

text \<open>
  An arbitrary-precision signed-integer encoding that satisfies both laws, used where a
  function is evaluated on concrete bytes: the integer is folded onto the naturals
  (0, -1, 1, -2, ...) and written in groups of seven bits, low group first, the top bit
  of a byte saying that another group follows. The decoder refuses a final group of
  zero after a continuation.
\<close>

function varint_enc :: "nat \<Rightarrow> byte list" where
  "varint_enc n =
     (if n < 128 then [of_nat n] else of_nat (128 + n mod 128) # varint_enc (n div 128))"
  by pat_completeness auto
termination
  by (relation "measure (\<lambda>n. n)") auto

declare varint_enc.simps [simp del]

fun varint_dec :: "byte list \<Rightarrow> error + (nat \<times> byte list)" where
  "varint_dec [] = Inl RangeError"
| "varint_dec (b # bs) =
     (if unat b < 128 then Inr (unat b, bs)
      else and_then (varint_dec bs) (\<lambda>(m, rest).
             if m = 0 then Inl AssetWireError else Inr (unat b - 128 + 128 * m, rest)))"

definition zigzag :: "int \<Rightarrow> nat" where
  "zigzag i = (if 0 \<le> i then nat (2 * i) else nat (- 2 * i - 1))"

definition unzigzag :: "nat \<Rightarrow> int" where
  "unzigzag n = (if even n then int (n div 2) else - int (n div 2) - 1)"

definition sample_asset_wire :: AssetWire where
  "sample_asset_wire =
     \<lparr>asset_enc = (\<lambda>a. varint_enc (zigzag (amount a))),
      asset_dec = (\<lambda>buf. and_then (varint_dec buf) (\<lambda>(n, rest). Inr (Asset (unzigzag n), rest)))\<rparr>"
section \<open>Sample values\<close>

text \<open>Concrete values on which the theorems below are instantiated.\<close>

definition sample_sig_a :: SigPair where
  "sample_sig_a = \<lparr>publicKey = replicate 32 0x0a, signature = replicate 64 0x1a\<rparr>"

definition sample_sig_b :: SigPair where
  "sample_sig_b = \<lparr>publicKey = replicate 32 0x0b, signature = replicate 64 0x1b\<rparr>"

definition sample_transfer :: TxVariant where
  "sample_transfer =
     TxVariant (TransferTxV0
       \<lparr>timestamp = \<lparr>bits = 1600000000000, unsigned = True\<rparr>, fee = Asset 100,
        signaturePairs = [sample_sig_a, sample_sig_b]\<rparr>
       \<lparr>transfer_from = replicate 32 0x01, transfer_to = replicate 32 0x02,
        transfer_script = [0x51, 0x52], transfer_amount = Asset 150000, memo = [0x68, 0x69]\<rparr>)"

definition sample_keyPair :: KeyPair where
  "sample_keyPair = \<lparr>sign = (\<lambda>bs. \<lparr>publicKey = replicate 32 0x0c, signature = take 64 (bs @ replicate 64 0)\<rparr>)\<rparr>"


section \<open>The GRAEL asset\<close>

text \<open>
  Modelled from the spec: \<^verbatim>\<open>asset.ts\<close> is missing; of the asset only its test suite
  (\<^verbatim>\<open>tests/asset.test.ts\<close>) is among the sources. The definitions of this section follow
  section 4.1 of the specification; the literal cases of the test suite are proved of them
  further down. The amount of an asset is the integer \<open>amount\<close> of minor units declared
  above; its decimal value is that integer over \<open>10 ^ PRECISION\<close>.
\<close>

definition PRECISION :: nat where
  "PRECISION = 5"

definition ASSET_SYMBOL :: string where
  "ASSET_SYMBOL = ''GRAEL''"

datatype AssetError =
    AssetParseError string
  | ArithmeticError string
  | JsTypeError string
  | OutsideSpec

subsection \<open>Arithmetic\<close>












subsection \<open>Parsing\<close>

definition is_digit :: "char \<Rightarrow> bool" where
  "is_digit c = (48 \<le> (of_char c :: nat) \<and> (of_char c :: nat) \<le> 57)"

definition digit_val :: "char \<Rightarrow> nat" where
  "digit_val c = of_char c - 48"

definition digits_to_nat :: "string \<Rightarrow> nat" where
  "digits_to_nat ds = foldl (\<lambda>a c. a * 10 + digit_val c) 0 ds"

text \<open>\<^verbatim>\<open>s.split(c)\<close>: the pieces between the occurrences of \<open>c\<close>, empty pieces included.\<close>

fun split_on :: "char \<Rightarrow> string \<Rightarrow> string list" where
  "split_on c [] = [[]]"
| "split_on c (x # xs) =
     (if x = c then [] # split_on c xs
      else (case split_on c xs of [] \<Rightarrow> [[x]] | t # ts \<Rightarrow> (x # t) # ts))"

text \<open>
  The amount token, taken apart: whether it starts with a minus sign, the characters
  before the first decimal point, and those after it (\<open>None\<close> when there is no point).
\<close>

definition is_negative :: "string \<Rightarrow> bool" where
  "is_negative t = (case t of [] \<Rightarrow> False | c # r \<Rightarrow> c = CHR ''-'')"

definition unsigned_part :: "string \<Rightarrow> string" where
  "unsigned_part t = (case t of [] \<Rightarrow> [] | c # r \<Rightarrow> if c = CHR ''-'' then r else t)"

definition int_part :: "string \<Rightarrow> string" where
  "int_part t = takeWhile (\<lambda>c. c \<noteq> CHR ''.'') (unsigned_part t)"

definition frac_part :: "string \<Rightarrow> string option" where
  "frac_part t =
     (case dropWhile (\<lambda>c. c \<noteq> CHR ''.'') (unsigned_part t) of [] \<Rightarrow> None | d # fs \<Rightarrow> Some fs)"

definition all_digits :: "string \<Rightarrow> string" where
  "all_digits t = int_part t @ (case frac_part t of None \<Rightarrow> [] | Some fs \<Rightarrow> fs)"

text \<open>
  A syntactically valid signed numeral, after the grammar of the specification
  (\<^verbatim>\<open>["-"] digits* ["." digits*]\<close>): an optional minus sign, digits, and optionally a point
  and digits; with at least one digit, as a numeral has.
\<close>

definition valid_numeral :: "string \<Rightarrow> bool" where
  "valid_numeral t = (list_all is_digit (all_digits t) \<and> all_digits t \<noteq> [])"

text \<open>
  The ceiling on the magnitude. The specification calls it a ceiling of 21 significant
  digits and gives one case, the 21-digit integer \<^verbatim>\<open>123456789012345678901\<close>, which is
  refused: the digits of the token are counted from its first non-zero digit, and 21 of
  them are too many.
\<close>

definition significant_digits :: "string \<Rightarrow> string" where
  "significant_digits t = dropWhile (\<lambda>c. c = CHR ''0'') (all_digits t)"

definition too_large :: "string \<Rightarrow> bool" where
  "too_large t = (21 \<le> length (significant_digits t))"

definition fromString :: "string \<Rightarrow> AssetError + Asset" where
  "fromString s =
     (case split_on CHR '' '' s of
        [amt, symbol] \<Rightarrow>
          if \<not> valid_numeral amt then Inl (AssetParseError ''amount must be a valid number'')
          else if too_large amt then Inl (AssetParseError ''input too large'')
          else (case frac_part amt of
                  None \<Rightarrow> Inl (AssetParseError ''invalid format'')
                | Some fs \<Rightarrow>
                    if length fs \<noteq> PRECISION then Inl (AssetParseError ''invalid precision'')
                    else if symbol \<noteq> ASSET_SYMBOL then Inl (AssetParseError ''asset type must be GRAEL'')
                    else Inr (Asset ((if is_negative amt then - 1 else 1)
                                      * int (digits_to_nat (all_digits amt)))))
      | _ \<Rightarrow> Inl (AssetParseError ''invalid format''))"

subsection \<open>Formatting\<close>

definition digit_char :: "nat \<Rightarrow> char" where
  "digit_char n = char_of (48 + n)"

function nat_to_digits :: "nat \<Rightarrow> string" where
  "nat_to_digits n =
     (if n < 10 then [digit_char n] else nat_to_digits (n div 10) @ [digit_char (n mod 10)])"
  by pat_completeness auto
termination
  by (relation "measure (\<lambda>n. n)") auto

declare nat_to_digits.simps [simp del]

definition pad_left :: "nat \<Rightarrow> string \<Rightarrow> string" where
  "pad_left k s = replicate (k - length s) CHR ''0'' @ s"

text \<open>
  \<^verbatim>\<open>toString(includeSymbol = true)\<close>: the sign (none for zero), the whole units, a
  point, the minor units on \<open>PRECISION\<close> digits, and the symbol unless it is declined.
\<close>

definition toString :: "Asset \<Rightarrow> bool option \<Rightarrow> string" where
  "toString a includeSymbol =
     (let m = nat \<bar>amount a\<bar>
      in (if amount a < 0 then ''-'' else [])
         @ nat_to_digits (m div 10 ^ PRECISION) @ ''.''
         @ pad_left PRECISION (nat_to_digits (m mod 10 ^ PRECISION))
         @ (if (case includeSymbol of None \<Rightarrow> True | Some b \<Rightarrow> b) then '' '' @ ASSET_SYMBOL else []))"

subsection \<open>Normalization of an amount string\<close>

text \<open>
  The normalization as the claim words it: the digits as written, a \<open>0\<close> put before the
  point when no digit stands there, no minus sign on zero, and the symbol.
\<close>

definition is_zero_numeral :: "string \<Rightarrow> bool" where
  "is_zero_numeral t = list_all (\<lambda>c. c = CHR ''0'') (all_digits t)"

definition normalize_as_claimed :: "string \<Rightarrow> string" where
  "normalize_as_claimed s =
     (let t = hd (split_on CHR '' '' s)
      in (if is_negative t \<and> \<not> is_zero_numeral t then ''-'' else [])
         @ (if int_part t = [] then ''0'' else int_part t) @ ''.''
         @ (case frac_part t of None \<Rightarrow> [] | Some fs \<Rightarrow> fs) @ '' '' @ ASSET_SYMBOL)"

text \<open>
  The normalization that formatting really computes: as above, and with the zeros that
  lead the whole units dropped (one \<open>0\<close> standing when nothing else is left).
\<close>

definition normalize_amount :: "string \<Rightarrow> string" where
  "normalize_amount t =
     (if is_negative t \<and> \<not> is_zero_numeral t then ''-'' else [])
     @ (case dropWhile (\<lambda>c. c = CHR ''0'') (int_part t) of [] \<Rightarrow> ''0'' | d # ds \<Rightarrow> d # ds) @ ''.''
     @ (case frac_part t of None \<Rightarrow> [] | Some fs \<Rightarrow> fs)"

definition normalize_string :: "string \<Rightarrow> string" where
  "normalize_string s = normalize_amount (hd (split_on CHR '' '' s)) @ '' '' @ ASSET_SYMBOL"
section \<open>Facts about the byte buffer\<close>

lemma and_then_Inl [simp]: "and_then (Inl e) f = Inl e"
  by (simp add: and_then_def)

lemma and_then_Inr [simp]: "and_then (Inr x) f = f x"
  by (simp add: and_then_def)


lemma length_nat_to_be [simp]: "length (nat_to_be k n) = k"
  by (induction k arbitrary: n) auto

lemma be_to_nat_snoc: "be_to_nat (bs @ [b]) = be_to_nat bs * 256 + unat b"
  by (simp add: be_to_nat_def)

lemma unat_byte_less: "unat (b :: byte) < 256"
  using unsigned_less [of b, where 'a = nat] by simp

lemma unat_byte_of_nat: "n < 256 \<Longrightarrow> unat (of_nat n :: byte) = n"
  by (simp add: unat_of_nat)

lemma be_to_nat_nat_to_be: "be_to_nat (nat_to_be k n) = n mod 256 ^ k"
proof (induction k arbitrary: n)
  case 0
  then show ?case by (simp add: be_to_nat_def)
next
  case (Suc k)
  have "n mod (256 * 256 ^ k) = (n div 256 mod 256 ^ k) * 256 + n mod 256"
    by (metis mod_mult2_eq mult.commute)
  with Suc show ?case by (simp add: be_to_nat_snoc unat_byte_of_nat)
qed



lemma readBytes_append: "length xs = n \<Longrightarrow> readBytes n (xs @ rest) = Inr (xs, rest)"
  by (simp add: readBytes_def)


lemma readUint8_Cons [simp]: "readUint8 (b # rest) = Inr (b, rest)"
  by (simp add: readUint8_def)


lemma readUint16_be: "readUint16 (nat_to_be 2 (unat w) @ rest) = Inr (w, rest)"
proof -
  have "unat w mod 256 ^ 2 = unat w"
    using unsigned_less [of w, where 'a = nat] by simp
  then show ?thesis
    by (simp add: readUint16_def readBytes_append be_to_nat_nat_to_be)
qed

lemma readUint32_be: "readUint32 (nat_to_be 4 (unat w) @ rest) = Inr (w, rest)"
proof -
  have "unat w mod 256 ^ 4 = unat w"
    using unsigned_less [of w, where 'a = nat] by simp
  then show ?thesis
    by (simp add: readUint32_def readBytes_append be_to_nat_nat_to_be)
qed

lemma readUint64_be:
  "readUint64 (nat_to_be 8 (unat w) @ rest) = Inr (\<lparr>bits = w, unsigned = True\<rparr>, rest)"
proof -
  have "unat w mod 256 ^ 8 = unat w"
    using unsigned_less [of w, where 'a = nat] by simp
  then show ?thesis
    by (simp add: readUint64_def readBytes_append be_to_nat_nat_to_be)
qed




section \<open>Serializers and deserializers are inverse\<close>

lemma TypeSerializer_buffer_eq: "TypeSerializer_buffer buf bs = buf @ buffer_bytes bs"
  by (simp add: buffer_bytes_def TypeSerializer_buffer_def writeBytes_def writeUint32_def)

lemma TypeDeserializer_buffer_bytes:
  "wf_blob bs \<Longrightarrow> TypeDeserializer_buffer (buffer_bytes bs @ rest) = Inr (bs, rest)"
proof -
  assume "wf_blob bs"
  then have u: "unat (of_nat (length bs) :: 32 word) = length bs"
    by (simp add: wf_blob_def unat_of_nat)
  have e: "buffer_bytes bs @ rest = nat_to_be 4 (unat (of_nat (length bs) :: 32 word)) @ bs @ rest"
    by (simp only: buffer_bytes_def TypeSerializer_buffer_def writeBytes_def writeUint32_def
        append_Nil append_assoc)
  show ?thesis
    unfolding TypeDeserializer_buffer_def e
    by (simp only: readUint32_be and_then_Inr prod.case) (simp add: u readBytes_append)
qed


lemma string_bytes_inverse: "map (\<lambda>b. char_of (unat b)) (map (\<lambda>c. of_nat (of_char c) :: byte) s) = s"
  by (induction s) (simp_all add: unat_of_nat)

lemma string_bytes_inverse_comp:
  "map ((\<lambda>b. char_of (unat b)) \<circ> (\<lambda>c. of_nat (of_char c) :: byte)) s = s"
  using string_bytes_inverse [of s] by simp

lemma bytes_string_inverse_comp:
  "map ((\<lambda>c. of_nat (of_char c) :: byte) \<circ> (\<lambda>b. char_of (unat b))) bs = bs"
proof (induction bs)
  case Nil
  then show ?case by simp
next
  case (Cons b bs)
  have "unat b mod 256 = unat b" using unat_byte_less [of b] by simp
  with Cons show ?case by simp
qed

lemma bytes_string_inverse: "map (\<lambda>c. of_nat (of_char c) :: byte) (map (\<lambda>b. char_of (unat b)) bs) = bs"
  using bytes_string_inverse_comp [of bs] by simp

lemma TypeSerializer_string_eq:
  "TypeSerializer_string buf s = buf @ buffer_bytes (map (\<lambda>c. of_nat (of_char c)) s)"
  by (simp add: TypeSerializer_string_def TypeSerializer_buffer_eq)

lemma TypeDeserializer_string_bytes:
  "length s < 2 ^ 32 \<Longrightarrow>
   TypeDeserializer_string (buffer_bytes (map (\<lambda>c. of_nat (of_char c)) s) @ rest) = Inr (s, rest)"
  by (simp add: TypeDeserializer_string_def TypeDeserializer_buffer_bytes wf_blob_def
      string_bytes_inverse_comp)


lemma TypeSerializer_sigPair_eq:
  "TypeSerializer_sigPair buf s = buf @ publicKey s @ signature s"
  by (simp add: TypeSerializer_sigPair_def TypeSerializer_publicKey_def writeBytes_def)

lemma TypeDeserializer_sigPair_bytes:
  "wf_SigPair s \<Longrightarrow> TypeDeserializer_sigPair (publicKey s @ signature s @ rest) = Inr (s, rest)"
  by (simp add: TypeDeserializer_sigPair_def TypeDeserializer_publicKey_def wf_SigPair_def
      wf_PublicKey_def readBytes_append)


lemma fold_sigPair_eq:
  "fold (\<lambda>sig buf. TypeSerializer_sigPair buf sig) ss buf
     = buf @ concat (map (\<lambda>s. publicKey s @ signature s) ss)"
  by (induction ss arbitrary: buf) (simp_all add: TypeSerializer_sigPair_eq)

lemma read_sigs_bytes:
  "list_all wf_SigPair ss \<Longrightarrow>
   read_sigs (length ss) (concat (map (\<lambda>s. publicKey s @ signature s) ss) @ rest) = Inr (ss, rest)"
  by (induction ss) (simp_all add: TypeDeserializer_sigPair_bytes)


lemma deserializeSigs_bytes:
  "list_all wf_SigPair ss \<Longrightarrow> length ss < 256 \<Longrightarrow>
   deserializeSigs (of_nat (length ss) # concat (map (\<lambda>s. publicKey s @ signature s) ss) @ rest)
     = Inr (ss, rest)"
  by (simp add: deserializeSigs_def unat_of_nat read_sigs_bytes)


lemma in_TxType_value [simp]: "in_TxType (TxType_value ty) = Some ty"
  by (cases ty) (simp_all add: in_TxType_def)



lemma serializeHeader_eq:
  "serializeHeader W buf t =
     buf @ TxType_value (tx_type t) # nat_to_be 8 (unat (bits (timestamp (tx_base t))))
         @ asset_enc W (fee (tx_base t))"
  by (simp add: serializeHeader_def writeUint8_def writeUint64_def TypeSerializer_asset_def
      writeBytes_def)

lemma serializeData_eq: "serializeData W buf t = buf @ serializeData W [] t"
  by (cases t)
     (simp_all add: TypeSerializer_publicKey_def TypeSerializer_digest_def TypeSerializer_script_def
        TypeSerializer_asset_def TypeSerializer_buffer_eq TypeSerializer_string_eq writeBytes_def)

lemma TxV0_serialize_eq: "TxV0_serialize W buf i t = buf @ TxV0_serialize W [] i t"
proof -
  have 1: "serializeData W (serializeHeader W buf t) t
          = buf @ serializeHeader W [] t @ serializeData W [] t"
    using serializeData_eq [of W "serializeHeader W buf t" t] by (simp add: serializeHeader_eq)
  have 2: "serializeData W (serializeHeader W [] t) t = serializeHeader W [] t @ serializeData W [] t"
    by (rule serializeData_eq)
  show ?thesis
    by (simp add: TxV0_serialize_def Let_def 1 2 fold_sigPair_eq writeUint8_def)
qed

lemma TxV0_serialize_bytes:
  "TxV0_serialize W [] i t =
     TxType_value (tx_type t) # nat_to_be 8 (unat (bits (timestamp (tx_base t))))
       @ asset_enc W (fee (tx_base t)) @ serializeData W [] t
       @ (if (case i of None \<Rightarrow> True | Some b \<Rightarrow> b)
          then of_nat (length (signaturePairs (tx_base t)))
                 # concat (map (\<lambda>s. publicKey s @ signature s) (signaturePairs (tx_base t)))
          else [])"
proof -
  have "serializeData W (serializeHeader W [] t) t = serializeHeader W [] t @ serializeData W [] t"
    by (rule serializeData_eq)
  then show ?thesis
    by (simp add: TxV0_serialize_def Let_def fold_sigPair_eq writeUint8_def serializeHeader_eq)
qed

lemma deserializeHeader_bytes:
  assumes "asset_wire_roundtrip W"
  shows "deserializeHeader W (TxType_value ty # nat_to_be 8 (unat w) @ asset_enc W f @ rest)
           = Inr ((ty, \<lparr>timestamp = \<lparr>bits = w, unsigned = True\<rparr>, fee = f, signaturePairs = []\<rparr>), rest)"
  using assms
  by (simp add: deserializeHeader_def readUint64_be TypeDeserializer_asset_def
      asset_wire_roundtrip_def)


lemma Long_unsigned_eq: "unsigned t \<Longrightarrow> \<lparr>bits = bits t, unsigned = True\<rparr> = t"
  by (cases t) simp

lemma TxData_rebuild:
  "unsigned (timestamp b) \<Longrightarrow>
   \<lparr>timestamp = \<lparr>bits = bits (timestamp b), unsigned = True\<rparr>, fee = fee b,
     signaturePairs = signaturePairs b\<rparr> = b"
  by (cases b) (simp add: Long_unsigned_eq)

lemma OwnerTxV0_deserializeData_bytes:
  "wf_PublicKey (minter d) \<Longrightarrow> wf_digest (wallet d) \<Longrightarrow> wf_blob (owner_script d) \<Longrightarrow>
   OwnerTxV0_deserializeData (serializeData W [] (OwnerTxV0 b d) @ rest) = Inr (d, rest)"
  by (simp add: OwnerTxV0_deserializeData_def TypeSerializer_publicKey_def TypeSerializer_digest_def
      TypeSerializer_script_def TypeSerializer_buffer_eq writeBytes_def
      TypeDeserializer_publicKey_def TypeDeserializer_digest_def TypeDeserializer_script_def
      wf_PublicKey_def wf_digest_def readBytes_append TypeDeserializer_buffer_bytes)

lemma MintTxV0_deserializeData_bytes:
  "asset_wire_roundtrip W \<Longrightarrow> wf_digest (mint_to d) \<Longrightarrow> wf_blob (attachment d) \<Longrightarrow>
   length (attachmentName d) < 2 ^ 32 \<Longrightarrow> wf_blob (mint_script d) \<Longrightarrow>
   MintTxV0_deserializeData W (serializeData W [] (MintTxV0 b d) @ rest) = Inr (d, rest)"
  by (simp add: MintTxV0_deserializeData_def TypeSerializer_digest_def TypeSerializer_asset_def
      TypeSerializer_script_def TypeSerializer_buffer_eq TypeSerializer_string_eq writeBytes_def
      TypeDeserializer_digest_def TypeDeserializer_script_def TypeDeserializer_asset_def
      wf_digest_def readBytes_append TypeDeserializer_buffer_bytes TypeDeserializer_string_bytes
      asset_wire_roundtrip_def)

lemma RewardTxV0_deserializeData_bytes:
  "asset_wire_roundtrip W \<Longrightarrow> wf_digest (reward_to d) \<Longrightarrow>
   RewardTxV0_deserializeData W (serializeData W [] (RewardTxV0 b d) @ rest) = Inr (d, rest)"
  by (simp add: RewardTxV0_deserializeData_def TypeSerializer_digest_def TypeSerializer_asset_def
      writeBytes_def TypeDeserializer_digest_def TypeDeserializer_asset_def
      wf_digest_def readBytes_append asset_wire_roundtrip_def)

lemma TransferTxV0_deserializeData_bytes:
  "asset_wire_roundtrip W \<Longrightarrow> wf_digest (transfer_from d) \<Longrightarrow> wf_digest (transfer_to d) \<Longrightarrow>
   wf_blob (transfer_script d) \<Longrightarrow> wf_blob (memo d) \<Longrightarrow>
   TransferTxV0_deserializeData W (serializeData W [] (TransferTxV0 b d) @ rest) = Inr (d, rest)"
  by (simp add: TransferTxV0_deserializeData_def TypeSerializer_digest_def TypeSerializer_asset_def
      TypeSerializer_script_def TypeSerializer_buffer_eq writeBytes_def
      TypeDeserializer_digest_def TypeDeserializer_script_def TypeDeserializer_asset_def
      wf_digest_def readBytes_append TypeDeserializer_buffer_bytes asset_wire_roundtrip_def)

lemma TxV0_roundtrip:
  assumes W: "asset_wire_roundtrip W" and wf: "wf_tx t"
    and n: "length (signaturePairs (tx_base t)) < 256"
  shows "TxV0_deserialize W (TxV0_serialize W [] (Some True) t @ rest) = Inr (t, rest)"
proof (cases t)
  case (OwnerTxV0 b d)
  with wf n show ?thesis
    by (simp add: TxV0_serialize_bytes TxV0_deserialize_def deserializeHeader_bytes [OF W]
        OwnerTxV0_deserializeData_bytes deserializeSigs_bytes wf_TxData_def
        new_OwnerTxV0_def new_TxV0_def TxData_rebuild
        del: serializeData.simps TxType_value.simps)
next
  case (MintTxV0 b d)
  with wf n show ?thesis
    by (simp add: TxV0_serialize_bytes TxV0_deserialize_def deserializeHeader_bytes [OF W]
        MintTxV0_deserializeData_bytes [OF W] deserializeSigs_bytes wf_TxData_def
        new_MintTxV0_def new_TxV0_def TxData_rebuild
        del: serializeData.simps TxType_value.simps)
next
  case (RewardTxV0 b d)
  with wf n show ?thesis
    by (simp add: TxV0_serialize_bytes TxV0_deserialize_def deserializeHeader_bytes [OF W]
        RewardTxV0_deserializeData_bytes [OF W] deserializeSigs_bytes wf_TxData_def
        new_RewardTxV0_def new_TxV0_def TxData_rebuild
        del: serializeData.simps TxType_value.simps)
next
  case (TransferTxV0 b d)
  with wf n show ?thesis
    by (simp add: TxV0_serialize_bytes TxV0_deserialize_def deserializeHeader_bytes [OF W]
        TransferTxV0_deserializeData_bytes [OF W] deserializeSigs_bytes wf_TxData_def
        new_TransferTxV0_def new_TxV0_def TxData_rebuild
        del: serializeData.simps TxType_value.simps)
qed

lemma TxVariant_serialize_eq:
  "TxVariant_serialize W None i v = writeUint16 [] 0 @ TxV0_serialize W [] i (tx v)"
  by (simp add: TxVariant_serialize_def ByteBuffer_alloc_def Let_def) (rule TxV0_serialize_eq)

lemma readUint16_writeUint16: "readUint16 (writeUint16 [] w @ rest) = Inr (w, rest)"
  by (simp only: writeUint16_def append_Nil readUint16_be)

lemma TxVariant_roundtrip_gen:
  assumes "asset_wire_roundtrip W" and "wf_tx (tx v)"
    and "length (signaturePairs (tx_base (tx v))) < 256"
  shows "TxVariant_deserialize W (TxVariant_serialize W None (Some True) v @ rest) = Inr (v, rest)"
  unfolding TxVariant_serialize_eq TxVariant_deserialize_def append_assoc readUint16_writeUint16
  by (simp add: TxV0_roundtrip [OF assms])








subsection \<open>The sample asset encoding satisfies both laws\<close>

lemma varint_dec_enc: "varint_dec (varint_enc n @ rest) = Inr (n, rest)"
proof (induction n rule: varint_enc.induct)
  case (1 n)
  show ?case
  proof (cases "n < 128")
    case True
    then show ?thesis by (subst varint_enc.simps) (simp add: unat_of_nat)
  next
    case False
    have u: "unat (of_nat (128 + n mod 128) :: byte) = 128 + n mod 128"
      by (rule unat_byte_of_nat) simp
    from False have "n div 128 \<noteq> 0" by simp
    with False 1 show ?thesis
      by (subst varint_enc.simps) (simp only: u if_False list.simps append_Cons varint_dec.simps
          and_then_Inr prod.case, simp)
  qed
qed


lemma unzigzag_zigzag: "unzigzag (zigzag i) = i"
proof (cases i rule: int_cases)
  case (nonneg k)
  have "nat (2 * int k) = 2 * k" by simp
  with nonneg show ?thesis by (simp add: zigzag_def unzigzag_def)
next
  case (neg k)
  have "nat (- 2 * (- int (Suc k)) - 1) = Suc (2 * k)" by simp
  with neg show ?thesis by (simp add: zigzag_def unzigzag_def)
qed


lemma sample_asset_wire_roundtrip: "asset_wire_roundtrip sample_asset_wire"
  by (simp add: asset_wire_roundtrip_def sample_asset_wire_def varint_dec_enc unzigzag_zigzag)

section \<open>Transactions: round trip, signing, rejected input\<close>

lemma nat_to_be_numeral:
  "nat_to_be (numeral k) n = nat_to_be (pred_numeral k) (n div 256) @ [of_nat (n mod 256)]"
  unfolding numeral_eq_Suc [of k] by simp


lemma wf_sample_transfer: "wf_tx (tx sample_transfer)"
  by (simp add: sample_transfer_def sample_sig_a_def sample_sig_b_def wf_TxData_def wf_SigPair_def
      wf_PublicKey_def wf_digest_def wf_blob_def PUBLIC_KEY_BYTES_def SIGNATURE_BYTES_def
      DIGEST_BYTES_def)

subsection \<open>C1: the signed form reads back as the transaction\<close>

text \<open>
  C1. For every transaction holding between 0 and 8 signature pairs, deserializing the bytes
  that \<open>TxVariant_serialize\<close> produces with the signatures included yields the same
  transaction, field for field and with the pairs in their order, and leaves nothing
  unread. The transaction is one the types allow (\<open>wf_tx\<close>), and the asset encoding
  reads back what it writes.
\<close>

theorem TxVariant_roundtrip:
  assumes "asset_wire_roundtrip W" and "wf_tx (tx v)"
    and "length (signaturePairs (tx_base (tx v))) \<le> MAX_TX_SIGNATURES"
  shows "TxVariant_deserialize W (TxVariant_serialize W None (Some True) v) = Inr (v, [])"
proof -
  from assms(3) have "length (signaturePairs (tx_base (tx v))) < 256"
    by (simp add: MAX_TX_SIGNATURES_def)
  from TxVariant_roundtrip_gen [OF assms(1,2) this, of "[]"] show ?thesis by simp
qed

theorem TxVariant_roundtrip_witness:
  "asset_wire_roundtrip sample_asset_wire \<and> wf_tx (tx sample_transfer)
   \<and> length (signaturePairs (tx_base (tx sample_transfer))) \<le> MAX_TX_SIGNATURES
   \<and> TxVariant_deserialize sample_asset_wire
         (TxVariant_serialize sample_asset_wire None (Some True) sample_transfer)
       = Inr (sample_transfer, [])"
proof -
  have n: "length (signaturePairs (tx_base (tx sample_transfer))) \<le> MAX_TX_SIGNATURES"
    by (simp add: sample_transfer_def MAX_TX_SIGNATURES_def)
  from TxVariant_roundtrip [OF sample_asset_wire_roundtrip wf_sample_transfer n]
    sample_asset_wire_roundtrip wf_sample_transfer n
  show ?thesis by simp
qed

subsection \<open>C2: what is signed does not depend on the signatures held\<close>

lemma serializeData_set_signaturePairs:
  "serializeData W buf (set_signaturePairs s t) = serializeData W buf t"
  by (cases t) simp_all

lemma serializeHeader_set_signaturePairs:
  "serializeHeader W buf (set_signaturePairs s t) = serializeHeader W buf t"
  by (cases t) (simp_all add: serializeHeader_def)

lemma unsigned_set_signaturePairs:
  "TxVariant_serialize W None (Some False) (TxVariant (set_signaturePairs s t))
     = TxVariant_serialize W None (Some False) (TxVariant t)"
  by (simp add: TxVariant_serialize_def TxV0_serialize_def Let_def
      serializeData_set_signaturePairs serializeHeader_set_signaturePairs)

text \<open>
  C2. The unsigned form (\<open>includeSigs = false\<close>) of a transaction is the same byte
  string whatever its list of signature pairs holds; \<open>TxVariant_sign\<close> signs exactly the
  unsigned form written into a fresh buffer and returns the pair the signer gives, so
  the pair does not depend on the signatures already present; and the signed form is the
  unsigned form followed by the count and the pairs, so the bytes signed carry no
  signature.
\<close>

theorem unsigned_form_ignores_signatures:
  "TxVariant_serialize W None (Some False) (TxVariant (set_signaturePairs s1 t))
     = TxVariant_serialize W None (Some False) (TxVariant (set_signaturePairs s2 t))
   \<and> fst (TxVariant_sign W keyPair a v) = sign keyPair (TxVariant_serialize W None (Some False) v)
   \<and> fst (TxVariant_sign W keyPair a (TxVariant (set_signaturePairs s1 t)))
     = fst (TxVariant_sign W keyPair a (TxVariant (set_signaturePairs s2 t)))
   \<and> TxVariant_serialize W None (Some True) v
     = TxVariant_serialize W None (Some False) v
       @ of_nat (length (signaturePairs (tx_base (tx v))))
       # concat (map (\<lambda>s. publicKey s @ signature s) (signaturePairs (tx_base (tx v))))"
proof (intro conjI)
  show 1: "TxVariant_serialize W None (Some False) (TxVariant (set_signaturePairs s1 t))
     = TxVariant_serialize W None (Some False) (TxVariant (set_signaturePairs s2 t))"
    by (simp only: unsigned_set_signaturePairs)
  show 2: "fst (TxVariant_sign W keyPair a v) = sign keyPair (TxVariant_serialize W None (Some False) v)"
    by (simp add: TxVariant_sign_def Let_def sharedView_def)
  show "fst (TxVariant_sign W keyPair a (TxVariant (set_signaturePairs s1 t)))
     = fst (TxVariant_sign W keyPair a (TxVariant (set_signaturePairs s2 t)))"
    by (simp only: TxVariant_sign_def Let_def fst_conv 1)
  show "TxVariant_serialize W None (Some True) v
     = TxVariant_serialize W None (Some False) v
       @ of_nat (length (signaturePairs (tx_base (tx v))))
       # concat (map (\<lambda>s. publicKey s @ signature s) (signaturePairs (tx_base (tx v))))"
    by (simp add: TxVariant_serialize_eq TxV0_serialize_bytes del: serializeData.simps)
qed

lemma unsigned_sample_transfer:
  "TxVariant_serialize sample_asset_wire None (Some False) sample_transfer
     = [0, 0, 3, 0, 0, 1, 0x74, 0x87, 0x6E, 0x80, 0, 0xC8, 1]
       @ replicate 32 0x01 @ replicate 32 0x02 @ [0, 0, 0, 2, 0x51, 0x52, 0xE0, 0xA7, 0x12]
       @ [0, 0, 0, 2, 0x68, 0x69]"
  apply (simp add: sample_transfer_def TxVariant_serialize_def TxV0_serialize_def serializeHeader_def
      ByteBuffer_alloc_def writeUint16_def writeUint8_def writeUint64_def writeUint32_def
      writeBytes_def nat_to_be_numeral TypeSerializer_buffer_def TypeSerializer_script_def
      TypeSerializer_asset_def TypeSerializer_digest_def sample_asset_wire_def zigzag_def)
  apply (subst varint_enc.simps, simp)+
  done

theorem unsigned_form_ignores_signatures_witness:
  "TxVariant_serialize sample_asset_wire None (Some False)
       (TxVariant (set_signaturePairs [] (tx sample_transfer)))
     = TxVariant_serialize sample_asset_wire None (Some False)
         (TxVariant (set_signaturePairs [sample_sig_b] (tx sample_transfer)))
   \<and> fst (TxVariant_sign sample_asset_wire sample_keyPair True sample_transfer)
     = sign sample_keyPair (TxVariant_serialize sample_asset_wire None (Some False) sample_transfer)"
  using unsigned_form_ignores_signatures
    [of sample_asset_wire "[]" "tx sample_transfer" "[sample_sig_b]" sample_keyPair True sample_transfer]
  by simp

subsection \<open>C8: which inputs are rejected, at construction and at decoding\<close>










subsection \<open>C10: the bytes a decoded transaction re-serializes to\<close>





section \<open>Verification errors: the constructor and the wire form\<close>

lemma in_TxVerifyErrorKind_value [simp]:
  "in_TxVerifyErrorKind (TxVerifyErrorKind_value k) = Some k"
  by (cases k) (simp_all add: in_TxVerifyErrorKind_def)

lemma in_TxVerifyErrorKind_None: "10 < unat b \<Longrightarrow> in_TxVerifyErrorKind b = None"
  by (auto simp: in_TxVerifyErrorKind_def)

lemma in_TxVerifyErrorKind_Some: "in_TxVerifyErrorKind b = Some k \<Longrightarrow> unat b \<le> 10"
  by (auto simp: in_TxVerifyErrorKind_def split: if_splits)

lemma new_TxVerifyError_kind: "new_TxVerifyError k m = Inr e \<Longrightarrow> kind e = k"
  by (cases k) (auto split: option.splits JsError.splits)

lemma new_TxVerifyError_other:
  "k \<noteq> ScriptEval \<Longrightarrow> new_TxVerifyError k m = new_TxVerifyError k None"
  by (cases k) simp_all

lemma new_TxVerifyError_other_meta:
  "k \<noteq> ScriptEval \<Longrightarrow> new_TxVerifyError k m = Inr e \<Longrightarrow> meta e = None"
  by (cases k) auto

subsection \<open>C5: a verification error reads back from its bytes\<close>

text \<open>
  C5. For every \<open>TxVerifyError\<close> the constructor builds, of each of the eleven kinds,
  deserializing the bytes \<open>TxVerifyError_serialize\<close> writes gives the same error back (for
  \<open>ScriptEval\<close> with the four-byte offset and the one-byte nested kind of its payload,
  the payload being a script error as script.ts builds it); and on every input whose kind
  byte is above \<open>0x0a\<close> the deserializer throws, substituting no kind.
\<close>

theorem TxVerifyError_roundtrip:
  "(new_TxVerifyError k m = Inr e \<and> (\<forall>se. meta e = Some se \<longrightarrow> wf_ScriptEvalError S se) \<longrightarrow>
      and_then (TxVerifyError_serialize [] e) (\<lambda>b. TxVerifyError_deserialize S (b @ rest)) = Inr (e, rest))
   \<and> (10 < unat b \<longrightarrow> TxVerifyError_deserialize S (b # rest) = Inl InvalidTxErrorKind)"
proof (intro conjI impI)
  assume a: "new_TxVerifyError k m = Inr e \<and> (\<forall>se. meta e = Some se \<longrightarrow> wf_ScriptEvalError S se)"
  show "and_then (TxVerifyError_serialize [] e) (\<lambda>b. TxVerifyError_deserialize S (b @ rest)) = Inr (e, rest)"
  proof (cases "k = ScriptEval")
    case True
    with a obtain se where m: "m = Some (ScriptEvalErr se)"
      and e: "e = \<lparr>kind = ScriptEval, meta = Some se, message = ''script eval: '' @ se_message se\<rparr>"
      by (auto split: option.splits JsError.splits)
    from a e have wf: "wf_ScriptEvalError S se" by simp
    then have se: "new_ScriptEvalError S (se_kind se) (se_position se) = se"
      and ink: "in_ScriptEvalErrorKind S (se_kind se)"
      by (simp_all add: wf_ScriptEvalError_def)
    show ?thesis
      by (simp add: e TxVerifyError_serialize_def TxVerifyError_deserialize_def writeUint8_def
          writeUint32_def readUint32_be in_TxVerifyErrorKind_def se ink)
  next
    case False
    with a have k: "kind e = k" and mt: "meta e = None" and n: "new_TxVerifyError k None = Inr e"
      using new_TxVerifyError_kind new_TxVerifyError_other_meta new_TxVerifyError_other by metis+
    with False show ?thesis
      by (simp add: TxVerifyError_serialize_def TxVerifyError_deserialize_def writeUint8_def)
  qed
next
  assume "10 < unat b"
  then show "TxVerifyError_deserialize S (b # rest) = Inl InvalidTxErrorKind"
    by (simp add: TxVerifyError_deserialize_def in_TxVerifyErrorKind_None)
qed

theorem TxVerifyError_roundtrip_witness:
  "and_then
     (TxVerifyError_serialize []
        \<lparr>kind = ScriptEval, meta = Some (new_ScriptEvalError sample_script_api 2 7),
         message = ''script eval: script error''\<rparr>)
     (\<lambda>b. TxVerifyError_deserialize sample_script_api (b @ [0x55]))
   = Inr (\<lparr>kind = ScriptEval, meta = Some (new_ScriptEvalError sample_script_api 2 7),
           message = ''script eval: script error''\<rparr>, [0x55])
   \<and> TxVerifyError_deserialize sample_script_api (0x0b # [0x55]) = Inl InvalidTxErrorKind"
  using TxVerifyError_roundtrip
    [of ScriptEval "Some (ScriptEvalErr (new_ScriptEvalError sample_script_api 2 7))"
        "\<lparr>kind = ScriptEval, meta = Some (new_ScriptEvalError sample_script_api 2 7),
          message = ''script eval: script error''\<rparr>"
        sample_script_api "[0x55]" "0x0b"]
  by (simp add: new_ScriptEvalError_def sample_script_api_def wf_ScriptEvalError_def)

subsection \<open>C6: what the constructor rejects\<close>

text \<open>
  C6 as stated fails: a kind other than \<open>ScriptEval\<close> constructed with a payload does not
  throw. The constructor reads \<open>meta\<close> only in the \<open>ScriptEval\<close> branch; here
  \<open>TxDupe\<close> is constructed with an error as payload, and the result is the plain
  \<open>TxDupe\<close> error with no payload stored.
\<close>

theorem payload_on_other_kind_accepted:
  "new_TxVerifyError TxDupe (Some (OtherError ''boom''))
   = Inr \<lparr>kind = TxDupe, meta = None, message = ''tx dupe''\<rparr>"
  by simp

text \<open>
  C6, amended. Constructing \<open>ScriptEval\<close> throws exactly when the payload is not a
  \<open>ScriptEvalError\<close>; with one, it succeeds, stores the payload and derives the message
  from the payload's. Constructing any of the other ten kinds succeeds whether or not a
  payload is passed: the payload is ignored, \<open>meta\<close> stays unset, and the message is the
  fixed one of the kind.
\<close>

theorem new_TxVerifyError_cases:
  "new_TxVerifyError ScriptEval None = Inl InvalidErrorTypeForScriptEvalError
   \<and> new_TxVerifyError ScriptEval (Some (OtherError s)) = Inl InvalidErrorTypeForScriptEvalError
   \<and> new_TxVerifyError ScriptEval (Some (ScriptEvalErr se))
     = Inr \<lparr>kind = ScriptEval, meta = Some se, message = ''script eval: '' @ se_message se\<rparr>
   \<and> (k \<noteq> ScriptEval \<longrightarrow>
        new_TxVerifyError k m
        = Inr \<lparr>kind = k, meta = None, message = TxVerifyError_fixed_message k\<rparr>)"
  by (cases k) simp_all

theorem new_TxVerifyError_cases_witness:
  "new_TxVerifyError ScriptEval (Some (OtherError ''boom'')) = Inl InvalidErrorTypeForScriptEvalError
   \<and> new_TxVerifyError TxExpired (Some (ScriptEvalErr (new_ScriptEvalError sample_script_api 2 7)))
     = Inr \<lparr>kind = TxExpired, meta = None, message = ''tx expired''\<rparr>"
  using new_TxVerifyError_cases
    [of "''boom''" _ TxExpired "Some (ScriptEvalErr (new_ScriptEvalError sample_script_api 2 7))"]
  by simp
section \<open>The asset: arithmetic\<close>

subsection \<open>Truncation toward zero, on integers\<close>





subsection \<open>Bounds on the thousandth power of 1.0002\<close>




subsection \<open>The literal cases of the test suite\<close>









section \<open>The asset: parsing and formatting\<close>

lemmas parse_defs = fromString_def valid_numeral_def too_large_def significant_digits_def
  all_digits_def int_part_def frac_part_def unsigned_part_def is_negative_def is_digit_def
  digits_to_nat_def digit_val_def PRECISION_def ASSET_SYMBOL_def

lemma nat_to_digits_small: "n < 10 \<Longrightarrow> nat_to_digits n = [digit_char n]"
  by (subst nat_to_digits.simps) simp

lemma nat_to_digits_large:
  "\<not> n < 10 \<Longrightarrow> nat_to_digits n = nat_to_digits (n div 10) @ [digit_char (n mod 10)]"
  by (subst nat_to_digits.simps) simp

lemma digit_char_values:
  "digit_char 0 = CHR ''0''" "digit_char 1 = CHR ''1''" "digit_char 2 = CHR ''2''"
  "digit_char 3 = CHR ''3''" "digit_char 4 = CHR ''4''" "digit_char 5 = CHR ''5''"
  "digit_char 6 = CHR ''6''" "digit_char 7 = CHR ''7''" "digit_char 8 = CHR ''8''"
  "digit_char 9 = CHR ''9''" "digit_char (Suc 0) = CHR ''1''"
  by (simp_all add: digit_char_def char_of_def bit_Suc_0_iff)

lemma replicate_numeral: "replicate (numeral k) x = x # replicate (pred_numeral k) x"
  unfolding numeral_eq_Suc [of k] by simp

lemmas format_defs = toString_def pad_left_def digit_char_values PRECISION_def ASSET_SYMBOL_def
  nat_to_digits_small nat_to_digits_large replicate_numeral


lemma digit_char_digit_val: "is_digit c \<Longrightarrow> digit_char (digit_val c) = c"
  by (simp add: is_digit_def digit_char_def digit_val_def)

lemma digit_val_less: "is_digit c \<Longrightarrow> digit_val c < 10"
  by (auto simp: is_digit_def digit_val_def)

lemma digit_val_0_iff: "is_digit c \<Longrightarrow> digit_val c = 0 \<longleftrightarrow> c = CHR ''0''"
proof
  assume d: "is_digit c" and "digit_val c = 0"
  then have "digit_char (digit_val c) = digit_char 0" by simp
  with d show "c = CHR ''0''" by (simp add: digit_char_digit_val digit_char_values)
next
  assume "c = CHR ''0''"
  then show "digit_val c = 0" by (simp add: digit_val_def)
qed

lemma digits_to_nat_Nil [simp]: "digits_to_nat [] = 0"
  by (simp add: digits_to_nat_def)

lemma digits_to_nat_single [simp]: "digits_to_nat [c] = digit_val c"
  by (simp add: digits_to_nat_def)

lemma digits_to_nat_snoc: "digits_to_nat (ds @ [c]) = digits_to_nat ds * 10 + digit_val c"
  by (simp add: digits_to_nat_def)

lemma digits_to_nat_append:
  "digits_to_nat (xs @ ys) = digits_to_nat xs * 10 ^ length ys + digits_to_nat ys"
proof (induction ys rule: rev_induct)
  case Nil
  then show ?case by simp
next
  case (snoc y ys)
  have "digits_to_nat (xs @ ys @ [y]) = digits_to_nat ((xs @ ys) @ [y])" by simp
  also have "\<dots> = digits_to_nat (xs @ ys) * 10 + digit_val y" by (rule digits_to_nat_snoc)
  finally show ?case by (simp add: snoc digits_to_nat_snoc algebra_simps)
qed

lemma digits_to_nat_less: "list_all is_digit ds \<Longrightarrow> digits_to_nat ds < 10 ^ length ds"
proof (induction ds rule: rev_induct)
  case Nil
  then show ?case by simp
next
  case (snoc c ds)
  then have "digits_to_nat ds < 10 ^ length ds" and "digit_val c < 10"
    by (simp_all add: digit_val_less)
  then have "digits_to_nat ds * 10 + digit_val c < (digits_to_nat ds + 1) * 10" by simp
  also from \<open>digits_to_nat ds < 10 ^ length ds\<close> have "\<dots> \<le> 10 ^ length ds * 10" by simp
  finally show ?case by (simp add: digits_to_nat_snoc)
qed

lemma digits_to_nat_0_iff:
  "list_all is_digit ds \<Longrightarrow> digits_to_nat ds = 0 \<longleftrightarrow> list_all (\<lambda>c. c = CHR ''0'') ds"
  by (induction ds rule: rev_induct) (auto simp: digits_to_nat_snoc digit_val_0_iff)

lemma digits_to_nat_dropWhile:
  "digits_to_nat (dropWhile (\<lambda>c. c = CHR ''0'') ds) = digits_to_nat ds"
proof (induction ds)
  case Nil
  then show ?case by simp
next
  case (Cons c ds)
  have "digits_to_nat (CHR ''0'' # ds) = digits_to_nat ds"
    using digits_to_nat_append [of "[CHR ''0'']" ds] by (simp add: digits_to_nat_def digit_val_def)
  with Cons show ?case by simp
qed

lemma nat_to_digits_digits_to_nat:
  "list_all is_digit ds \<Longrightarrow> ds \<noteq> [] \<Longrightarrow> hd ds \<noteq> CHR ''0'' \<Longrightarrow>
   nat_to_digits (digits_to_nat ds) = ds"
proof (induction ds rule: rev_induct)
  case Nil
  then show ?case by simp
next
  case (snoc c ds)
  from snoc.prems have c: "is_digit c" and ds: "list_all is_digit ds" by simp_all
  show ?case
  proof (cases "ds = []")
    case True
    with c show ?thesis
      by (simp add: nat_to_digits_small digit_val_less digit_char_digit_val)
  next
    case False
    with snoc.prems have h: "hd ds \<noteq> CHR ''0''" by simp
    with False have "\<not> list_all (\<lambda>c. c = CHR ''0'') ds" by (cases ds) auto
    with digits_to_nat_0_iff [OF ds] have pos: "0 < digits_to_nat ds" by auto
    let ?n = "digits_to_nat ds * 10 + digit_val c"
    from pos have ge: "\<not> ?n < 10" by simp
    from c have dv: "?n div 10 = digits_to_nat ds" and md: "?n mod 10 = digit_val c"
      using digit_val_less [OF c] by simp_all
    from snoc.IH [OF ds False h] c digit_val_less [OF c] show ?thesis
      by (simp add: digits_to_nat_snoc nat_to_digits_large [OF ge] dv md digit_char_digit_val)
  qed
qed

lemma list_all_dropWhile: "list_all P xs \<Longrightarrow> list_all P (dropWhile Q xs)"
  by (induction xs) auto

lemma nat_to_digits_strip:
  assumes "list_all is_digit ds"
  shows "nat_to_digits (digits_to_nat ds)
           = (case dropWhile (\<lambda>c. c = CHR ''0'') ds of [] \<Rightarrow> ''0'' | d # r \<Rightarrow> d # r)"
proof (cases "dropWhile (\<lambda>c. c = CHR ''0'') ds")
  case Nil
  have "digits_to_nat ds = digits_to_nat (dropWhile (\<lambda>c. c = CHR ''0'') ds)"
    by (simp only: digits_to_nat_dropWhile)
  also have "\<dots> = 0" by (simp only: Nil digits_to_nat_Nil)
  finally have "nat_to_digits (digits_to_nat ds) = ''0''"
    by (simp add: nat_to_digits_small digit_char_values)
  then show ?thesis by (simp only: Nil list.case)
next
  case (Cons d r)
  have "hd (dropWhile (\<lambda>c. c = CHR ''0'') ds) \<noteq> CHR ''0''"
    using hd_dropWhile [of "\<lambda>c. c = CHR ''0''" ds] Cons by simp
  with Cons have "nat_to_digits (digits_to_nat (d # r)) = d # r"
    using list_all_dropWhile [OF assms, of "\<lambda>c. c = CHR ''0''"]
    by (intro nat_to_digits_digits_to_nat) simp_all
  with Cons digits_to_nat_dropWhile [of ds] show ?thesis by simp
qed

lemma takeWhile_zeros: "takeWhile (\<lambda>c. c = CHR ''0'') ds = replicate (length (takeWhile (\<lambda>c. c = CHR ''0'') ds)) CHR ''0''"
  by (induction ds) auto

lemma pad_left_digits:
  assumes "list_all is_digit ds" and "ds \<noteq> []"
  shows "pad_left (length ds) (nat_to_digits (digits_to_nat ds)) = ds"
proof -
  let ?z = "\<lambda>c. c = CHR ''0''"
  have split: "ds = takeWhile ?z ds @ dropWhile ?z ds" by simp
  have len: "length ds = length (takeWhile ?z ds) + length (dropWhile ?z ds)"
    by (subst split) (simp only: length_append)
  show ?thesis
  proof (cases "dropWhile ?z ds")
    case Nil
    have "ds = takeWhile ?z ds" using split by (simp only: Nil append_Nil2)
    then have ds: "ds = replicate (length ds) CHR ''0''"
      using takeWhile_zeros [of ds] by simp
    from assms(2) obtain k where k: "length ds = Suc k" by (cases ds) auto
    have "nat_to_digits (digits_to_nat ds) = ''0''"
      using nat_to_digits_strip [OF assms(1)] by (simp only: Nil list.case)
    then have "pad_left (length ds) (nat_to_digits (digits_to_nat ds)) = replicate k CHR ''0'' @ ''0''"
      by (simp add: pad_left_def k)
    also have "\<dots> = replicate (Suc k) CHR ''0''" by (simp add: replicate_append_same)
    finally show ?thesis using ds k by simp
  next
    case (Cons d r)
    have n: "nat_to_digits (digits_to_nat ds) = dropWhile ?z ds"
      using nat_to_digits_strip [OF assms(1)] by (simp only: Cons list.case)
    have "pad_left (length ds) (dropWhile ?z ds)
            = replicate (length (takeWhile ?z ds)) CHR ''0'' @ dropWhile ?z ds"
      using len by (simp add: pad_left_def)
    also have "\<dots> = takeWhile ?z ds @ dropWhile ?z ds"
      using takeWhile_zeros [of ds] by simp
    finally show ?thesis using n by simp
  qed
qed

lemma fromString_Inr:
  assumes "fromString s = Inr a"
  shows "\<exists>amt fs. split_on CHR '' '' s = [amt, ASSET_SYMBOL] \<and> valid_numeral amt \<and> \<not> too_large amt
           \<and> frac_part amt = Some fs \<and> length fs = PRECISION
           \<and> a = Asset ((if is_negative amt then - 1 else 1) * int (digits_to_nat (all_digits amt)))"
  using assms
  by (auto simp: fromString_def split: list.splits if_splits option.splits)

lemma toString_parsed:
  assumes v: "valid_numeral t" and f: "frac_part t = Some fs" and l: "length fs = PRECISION"
  shows "toString (Asset ((if is_negative t then - 1 else 1) * int (digits_to_nat (all_digits t)))) i
           = normalize_amount t
             @ (if (case i of None \<Rightarrow> True | Some b \<Rightarrow> b) then '' '' @ ASSET_SYMBOL else [])"
proof -
  let ?ip = "int_part t"
  let ?m = "digits_to_nat (all_digits t)"
  let ?a = "(if is_negative t then - 1 else 1) * int ?m"
  from f have ad: "all_digits t = ?ip @ fs" by (simp add: all_digits_def)
  from v ad have dip: "list_all is_digit ?ip" and dfs: "list_all is_digit fs"
    by (simp_all add: valid_numeral_def)
  from l have fs_ne: "fs \<noteq> []" by (auto simp: PRECISION_def)
  have m: "?m = digits_to_nat ?ip * 10 ^ PRECISION + digits_to_nat fs"
    by (simp add: ad digits_to_nat_append l)
  have lt: "digits_to_nat fs < 10 ^ PRECISION"
    using digits_to_nat_less [OF dfs] by (simp add: l)
  have ab: "nat \<bar>?a\<bar> = ?m" by simp
  from m lt have dv: "?m div 10 ^ PRECISION = digits_to_nat ?ip"
    and md: "?m mod 10 ^ PRECISION = digits_to_nat fs" by simp_all
  have whole: "nat_to_digits (digits_to_nat ?ip)
                 = (case dropWhile (\<lambda>c. c = CHR ''0'') ?ip of [] \<Rightarrow> ''0'' | d # r \<Rightarrow> d # r)"
    by (rule nat_to_digits_strip [OF dip])
  have minor: "pad_left PRECISION (nat_to_digits (digits_to_nat fs)) = fs"
    using pad_left_digits [OF dfs fs_ne] by (simp add: l)
  have zero: "?m = 0 \<longleftrightarrow> is_zero_numeral t"
    using digits_to_nat_0_iff [of "all_digits t"] v
    by (simp add: is_zero_numeral_def valid_numeral_def)
  have sign: "?a < 0 \<longleftrightarrow> is_negative t \<and> \<not> is_zero_numeral t"
    using zero by auto
  have "toString (Asset ?a) i
          = (if ?a < 0 then ''-'' else [])
            @ nat_to_digits (?m div 10 ^ PRECISION) @ ''.''
            @ pad_left PRECISION (nat_to_digits (?m mod 10 ^ PRECISION))
            @ (if (case i of None \<Rightarrow> True | Some b \<Rightarrow> b) then '' '' @ ASSET_SYMBOL else [])"
    unfolding toString_def Let_def Asset.sel ab ..
  also have "\<dots> = normalize_amount t
             @ (if (case i of None \<Rightarrow> True | Some b \<Rightarrow> b) then '' '' @ ASSET_SYMBOL else [])"
    unfolding dv md whole minor sign normalize_amount_def f by simp
  finally show ?thesis .
qed

lemma hd_split_on: "split_on c s = [t, u] \<Longrightarrow> hd (split_on c s) = t"
  by simp

subsection \<open>C7: formatting a parsed amount\<close>

text \<open>
  C7 as stated fails: the claim's normalization keeps the digits as written, and formatting
  does not. \<open>01.00000 GRAEL\<close> is accepted and is the amount of 100000 minor units,
  which formats as \<open>1.00000 GRAEL\<close>; the normalization as the claim words it is
  \<open>01.00000 GRAEL\<close>.
\<close>

theorem leading_zeros_not_kept:
  "fromString ''01.00000 GRAEL'' = Inr (Asset 100000)
   \<and> toString (Asset 100000) None = ''1.00000 GRAEL''
   \<and> normalize_as_claimed ''01.00000 GRAEL'' = ''01.00000 GRAEL''
   \<and> toString (Asset 100000) None \<noteq> normalize_as_claimed ''01.00000 GRAEL''"
  by (simp add: normalize_as_claimed_def is_zero_numeral_def parse_defs format_defs)

text \<open>
  C7, amended. For every string that \<open>fromString\<close> accepts, formatting the parsed value
  gives the normalization of the string: its digits with the five fractional digits, the
  zeros that lead the whole units dropped and a single \<open>0\<close> written when the magnitude is
  under one unit, the symbol appended when asked for (the default), and no minus sign on
  zero. \<open>-0.00000 GRAEL\<close> parses to the same value as \<open>0.00000 GRAEL\<close>, and both
  format to \<open>0.00000 GRAEL\<close>.
\<close>

theorem toString_fromString:
  "(fromString s = Inr a \<longrightarrow>
      toString a None = normalize_string s \<and> toString a (Some True) = normalize_string s
      \<and> toString a (Some False) = normalize_amount (hd (split_on CHR '' '' s)))
   \<and> fromString ''-0.00000 GRAEL'' = fromString ''0.00000 GRAEL''
   \<and> fromString ''0.00000 GRAEL'' = Inr (Asset 0)
   \<and> toString (Asset 0) None = ''0.00000 GRAEL''"
proof (intro conjI impI)
  assume "fromString s = Inr a"
  from fromString_Inr [OF this] obtain amt fs where
    sp: "split_on CHR '' '' s = [amt, ASSET_SYMBOL]" and v: "valid_numeral amt"
    and f: "frac_part amt = Some fs" and l: "length fs = PRECISION"
    and a: "a = Asset ((if is_negative amt then - 1 else 1) * int (digits_to_nat (all_digits amt)))"
    by blast
  note t = toString_parsed [OF v f l]
  show "toString a None = normalize_string s"
    unfolding a t normalize_string_def sp by simp
  show "toString a (Some True) = normalize_string s"
    unfolding a t normalize_string_def sp by simp
  show "toString a (Some False) = normalize_amount (hd (split_on CHR '' '' s))"
    unfolding a t sp by simp
next
  show "fromString ''-0.00000 GRAEL'' = fromString ''0.00000 GRAEL''"
    by (simp add: parse_defs)
  show "fromString ''0.00000 GRAEL'' = Inr (Asset 0)"
    by (simp add: parse_defs)
  show "toString (Asset 0) None = ''0.00000 GRAEL''"
    by (simp add: format_defs)
qed

theorem toString_fromString_witness:
  "fromString ''-.50000 GRAEL'' = Inr (Asset (- 50000))
   \<and> toString (Asset (- 50000)) None = normalize_string ''-.50000 GRAEL''
   \<and> normalize_string ''-.50000 GRAEL'' = ''-0.50000 GRAEL''
   \<and> toString (Asset (- 50000)) (Some False) = ''-0.50000''"
proof -
  have p: "fromString ''-.50000 GRAEL'' = Inr (Asset (- 50000))"
    by (simp add: parse_defs)
  have n: "normalize_string ''-.50000 GRAEL'' = ''-0.50000 GRAEL''"
    by (simp add: normalize_string_def normalize_amount_def is_zero_numeral_def parse_defs)
  have f: "toString (Asset (- 50000)) (Some False) = ''-0.50000''"
    by (simp add: format_defs)
  from toString_fromString [of "''-.50000 GRAEL''" "Asset (- 50000)"] p n f
  show ?thesis by simp
qed

lemma set_unsigned_part: "CHR ''.'' \<in> set (unsigned_part t) \<longleftrightarrow> CHR ''.'' \<in> set t"
  by (cases t) (auto simp: unsigned_part_def)

lemma frac_part_None_iff: "frac_part t = None \<longleftrightarrow> CHR ''.'' \<notin> set t"
proof (cases "dropWhile (\<lambda>c. c \<noteq> CHR ''.'') (unsigned_part t)")
  case Nil
  have 1: "frac_part t = None" unfolding frac_part_def Nil by simp
  have 2: "CHR ''.'' \<notin> set (unsigned_part t)"
    using Nil by (auto simp: dropWhile_eq_Nil_conv)
  from 1 2 show ?thesis by (simp add: set_unsigned_part)
next
  case (Cons d r)
  have 1: "frac_part t \<noteq> None" unfolding frac_part_def Cons by simp
  have "dropWhile (\<lambda>c. c \<noteq> CHR ''.'') (unsigned_part t) \<noteq> []" unfolding Cons by simp
  then have 2: "CHR ''.'' \<in> set (unsigned_part t)"
    by (auto simp: dropWhile_eq_Nil_conv)
  from 1 2 show ?thesis by (simp add: set_unsigned_part)
qed

lemma fromString_not_two:
  "length (split_on CHR '' '' s) \<noteq> 2 \<Longrightarrow> fromString s = Inl (AssetParseError ''invalid format'')"
  by (auto simp: fromString_def split: list.splits)

subsection \<open>C4: the checks of fromString, in order\<close>

text \<open>
  C4. \<open>fromString\<close> applies its checks in this order, with these messages: an input
  that does not split into exactly two tokens at its spaces is an invalid format; an
  amount that is not a valid signed numeral is not a valid number; a magnitude of 21
  significant digits or more is too large, whether or not a decimal point is present and
  whatever the precision and the symbol are; an amount without a decimal point is an
  invalid format; a number of fractional digits other than 5 is an invalid precision; a
  symbol other than \<open>GRAEL\<close> is refused; and what passes every check parses.
\<close>

theorem fromString_checks:
  "(length (split_on CHR '' '' s) \<noteq> 2 \<longrightarrow> fromString s = Inl (AssetParseError ''invalid format''))
   \<and> (split_on CHR '' '' s = [amt, symbol] \<longrightarrow>
        (\<not> valid_numeral amt \<longrightarrow>
           fromString s = Inl (AssetParseError ''amount must be a valid number''))
        \<and> (valid_numeral amt \<and> too_large amt \<longrightarrow>
           fromString s = Inl (AssetParseError ''input too large''))
        \<and> (valid_numeral amt \<and> \<not> too_large amt \<and> CHR ''.'' \<notin> set amt \<longrightarrow>
           fromString s = Inl (AssetParseError ''invalid format''))
        \<and> (valid_numeral amt \<and> \<not> too_large amt \<and> frac_part amt = Some fs \<and> length fs \<noteq> 5 \<longrightarrow>
           fromString s = Inl (AssetParseError ''invalid precision''))
        \<and> (valid_numeral amt \<and> \<not> too_large amt \<and> frac_part amt = Some fs \<and> length fs = 5
            \<and> symbol \<noteq> ''GRAEL'' \<longrightarrow>
           fromString s = Inl (AssetParseError ''asset type must be GRAEL''))
        \<and> (valid_numeral amt \<and> \<not> too_large amt \<and> frac_part amt = Some fs \<and> length fs = 5
            \<and> symbol = ''GRAEL'' \<longrightarrow>
           (\<exists>a. fromString s = Inr a)))
   \<and> fromString ''123456789012345678901 GRAEL'' = Inl (AssetParseError ''input too large'')
   \<and> fromString ''1 GRAEL'' = Inl (AssetParseError ''invalid format'')
   \<and> fromString ''1.0 GRAEL'' = Inl (AssetParseError ''invalid precision'')
   \<and> fromString ''1.00000 grael'' = Inl (AssetParseError ''asset type must be GRAEL'')"
proof (intro conjI impI)
  assume "length (split_on CHR '' '' s) \<noteq> 2"
  then show "fromString s = Inl (AssetParseError ''invalid format'')" by (rule fromString_not_two)
next
  assume sp: "split_on CHR '' '' s = [amt, symbol]"
  {
    assume "\<not> valid_numeral amt"
    then show "fromString s = Inl (AssetParseError ''amount must be a valid number'')"
      by (simp add: fromString_def sp)
  next
    assume "valid_numeral amt \<and> too_large amt"
    then show "fromString s = Inl (AssetParseError ''input too large'')"
      by (simp add: fromString_def sp)
  next
    assume "valid_numeral amt \<and> \<not> too_large amt \<and> CHR ''.'' \<notin> set amt"
    then show "fromString s = Inl (AssetParseError ''invalid format'')"
      using frac_part_None_iff [of amt] by (simp add: fromString_def sp)
  next
    assume "valid_numeral amt \<and> \<not> too_large amt \<and> frac_part amt = Some fs \<and> length fs \<noteq> 5"
    then show "fromString s = Inl (AssetParseError ''invalid precision'')"
      by (simp add: fromString_def sp PRECISION_def)
  next
    assume "valid_numeral amt \<and> \<not> too_large amt \<and> frac_part amt = Some fs \<and> length fs = 5
            \<and> symbol \<noteq> ''GRAEL''"
    then show "fromString s = Inl (AssetParseError ''asset type must be GRAEL'')"
      by (simp add: fromString_def sp PRECISION_def ASSET_SYMBOL_def)
  next
    assume "valid_numeral amt \<and> \<not> too_large amt \<and> frac_part amt = Some fs \<and> length fs = 5
            \<and> symbol = ''GRAEL''"
    then show "\<exists>a. fromString s = Inr a"
      by (simp add: fromString_def sp PRECISION_def ASSET_SYMBOL_def)
  }
next
  show "fromString ''123456789012345678901 GRAEL'' = Inl (AssetParseError ''input too large'')"
    by (simp add: parse_defs)
  show "fromString ''1 GRAEL'' = Inl (AssetParseError ''invalid format'')"
    by (simp add: parse_defs)
  show "fromString ''1.0 GRAEL'' = Inl (AssetParseError ''invalid precision'')"
    by (simp add: parse_defs)
  show "fromString ''1.00000 grael'' = Inl (AssetParseError ''asset type must be GRAEL'')"
    by (simp add: parse_defs)
qed

lemma split_example: "split_on CHR '' '' ''123456789012345678901.5 XYZ'' = [''123456789012345678901.5'', ''XYZ'']"
  by simp

theorem fromString_checks_witness:
  "split_on CHR '' '' ''123456789012345678901.5 XYZ'' = [''123456789012345678901.5'', ''XYZ'']
   \<and> valid_numeral ''123456789012345678901.5'' \<and> too_large ''123456789012345678901.5''
   \<and> fromString ''123456789012345678901.5 XYZ'' = Inl (AssetParseError ''input too large'')
   \<and> length (split_on CHR '' '' ''1.00000 GRAEL a'') \<noteq> 2
   \<and> fromString ''1.00000 GRAEL a'' = Inl (AssetParseError ''invalid format'')"
proof -
  have v: "valid_numeral ''123456789012345678901.5''" and t: "too_large ''123456789012345678901.5''"
    by (simp_all add: parse_defs)
  have n: "length (split_on CHR '' '' ''1.00000 GRAEL a'') \<noteq> 2" by simp
  from fromString_checks [of "''123456789012345678901.5 XYZ''" "''123456789012345678901.5''" "''XYZ''"]
    fromString_checks [of "''1.00000 GRAEL a''"] split_example v t n
  show ?thesis by simp
qed

subsection \<open>The cases of the test suite\<close>

lemma fromString_test_suite_accepts:
  "fromString ''1.00000 GRAEL'' = Inr (Asset 100000)"
  "fromString ''-1.00000 GRAEL'' = Inr (Asset (- 100000))"
  "fromString ''.10000 GRAEL'' = Inr (Asset 10000)"
  "fromString ''-.10000 GRAEL'' = Inr (Asset (- 10000))"
  "fromString ''0.10000 GRAEL'' = Inr (Asset 10000)"
  "fromString ''0.00000 GRAEL'' = Inr (Asset 0)"
  "fromString ''-0.00000 GRAEL'' = Inr (Asset 0)"
  by (simp_all add: parse_defs)

lemma fromString_test_suite_rejects:
  "fromString ''1b10.00000 GRAEL'' = Inl (AssetParseError ''amount must be a valid number'')"
  "fromString ''a100.00000 GRAEL'' = Inl (AssetParseError ''amount must be a valid number'')"
  "fromString ''100.0000a GRAEL'' = Inl (AssetParseError ''amount must be a valid number'')"
  "fromString ''0 GRAEL'' = Inl (AssetParseError ''invalid format'')"
  "fromString ''1.00000'' = Inl (AssetParseError ''invalid format'')"
  "fromString ''1.0000'' = Inl (AssetParseError ''invalid format'')"
  "fromString ''1. GRAEL'' = Inl (AssetParseError ''invalid precision'')"
  "fromString ''.1 GRAEL'' = Inl (AssetParseError ''invalid precision'')"
  "fromString ''-.1 GRAEL'' = Inl (AssetParseError ''invalid precision'')"
  "fromString ''0.1 GRAEL'' = Inl (AssetParseError ''invalid precision'')"
  "fromString ''-0.0 GRAEL'' = Inl (AssetParseError ''invalid precision'')"
  "fromString ''-1.0 GRAEL'' = Inl (AssetParseError ''invalid precision'')"
  "fromString ''1.000000 GRAEL'' = Inl (AssetParseError ''invalid precision'')"
  "fromString ''1.00000 GRAEL a'' = Inl (AssetParseError ''invalid format'')"
  by (simp_all add: parse_defs)

lemma toString_test_suite:
  "toString (Asset 100001) None = ''1.00001 GRAEL''"
  "toString (Asset 1) None = ''0.00001 GRAEL''"
  "toString (Asset 10) None = ''0.00010 GRAEL''"
  "toString (Asset (- 1)) None = ''-0.00001 GRAEL''"
  "toString (Asset 10000) None = ''0.10000 GRAEL''"
  "toString (Asset 100000) (Some False) = ''1.00000''"
  by (simp_all add: format_defs)

subsection \<open>C3: what the arithmetic computes\<close>





subsection \<open>C9: the errors of the arithmetic\<close>




end
